theory Spec2Isabelle
  imports Complex_Main
begin

section \<open>Tensors, errors\<close>

text \<open>
  Tensors are nested lists of reals: the float32 arithmetic of the host is idealised to
  exact real arithmetic. A rank-2 tensor of shape (m, d) is a list of m rows of length d.
\<close>

type_synonym vec = "real list"
type_synonym mat = "real list list"

type_synonym ten3 = "real list list list"
type_synonym ten4 = "real list list list list"

datatype error =
    AssertionError | NameError | TypeError | AttributeError | IndexError | ValueError
  | InvalidArgumentError

datatype tensor = Rank1 vec | Rank2 mat

section \<open>GaussianKernel\<close>

record GaussianKernel =
  sigma :: real
  pdist2 :: "mat option"

text \<open>\<open>X[None,:]\<close> when \<open>X.shape.ndims == 1\<close>, otherwise X itself.\<close>

fun as_rows :: "tensor \<Rightarrow> mat" where
  "as_rows (Rank1 v) = [v]"
| "as_rows (Rank2 m) = m"

text \<open>\<open>X.shape[1] == Y.shape[1]\<close>, read off the rows.\<close>

definition same_cols :: "mat \<Rightarrow> mat \<Rightarrow> bool" where
  "same_cols X Y = list_all (\<lambda>x. list_all (\<lambda>y. length x = length y) Y) X"

text \<open>One entry of \<open>tf.reduce_sum(X**2, axis=1)\<close>.\<close>

definition row_sq :: "vec \<Rightarrow> real" where
  "row_sq x = sum_list (map (\<lambda>a. a ^ 2) x)"

text \<open>One entry of \<open>tf.matmul(X, Y, transpose_b = True)\<close>.\<close>

definition dot :: "vec \<Rightarrow> vec \<Rightarrow> real" where
  "dot x y = sum_list (map2 (*) x y)"

definition get_pdist2 :: "GaussianKernel \<Rightarrow> tensor \<Rightarrow> tensor \<Rightarrow> error + mat \<times> GaussianKernel" where
  "get_pdist2 self X0 Y0 =
     (let X = as_rows X0; Y = as_rows Y0 in
      if \<not> same_cols X Y then Inl AssertionError
      else
        let pd = map (\<lambda>x. map (\<lambda>y. row_sq x - 2.0 * dot x y + row_sq y) Y) X
        in Inr (pd, self\<lparr>pdist2 := Some pd\<rparr>))"

definition get_gram_matrix :: "GaussianKernel \<Rightarrow> tensor \<Rightarrow> tensor \<Rightarrow> error + mat \<times> GaussianKernel" where
  "get_gram_matrix self X Y =
     (case get_pdist2 self X Y of
        Inl e \<Rightarrow> Inl e
      | Inr (pd, self') \<Rightarrow>
          Inr (map (map (\<lambda>p. exp (- 0.5 / sigma self' * p))) pd, self'))"

text \<open>\<open>(tf.expand_dims(X, 1) - tf.expand_dims(Y, 0)) / self.sigma\<close>, of shape (m, n, d).\<close>

definition pair_diff :: "real \<Rightarrow> mat \<Rightarrow> mat \<Rightarrow> ten3" where
  "pair_diff s X Y = map (\<lambda>x. map (\<lambda>y. map2 (\<lambda>a b. (a - b) / s) x y) Y) X"

text \<open>\<open>tf.einsum('ijk,ijl->ijkl', D, D)\<close>.\<close>

definition outer2 :: "ten3 \<Rightarrow> ten4" where
  "outer2 D = map (map (\<lambda>v. map (\<lambda>a. map (\<lambda>b. a * b) v) v)) D"

text \<open>\<open>tf.eye(n) / s\<close>.\<close>

definition eye_div :: "nat \<Rightarrow> real \<Rightarrow> mat" where
  "eye_div n s = map (\<lambda>k. map (\<lambda>l. (if k = l then 1 else 0) / s) [0..<n]) [0..<n]"

text \<open>
  \<open>D.shape[-1].value\<close>: the feature dimension, the length of the rows of X (the
  broadcast difference has the rows' length as its last axis).
\<close>

definition ncols :: "mat \<Rightarrow> nat" where
  "ncols X = (case X of [] \<Rightarrow> 0 | x # _ \<Rightarrow> length x)"

text \<open>\<open>g * (D2 - I)\<close> for one (i, j): g is a scalar, I is broadcast.\<close>

definition hess_block :: "real \<Rightarrow> mat \<Rightarrow> mat \<Rightarrow> mat" where
  "hess_block g D2 I = map2 (\<lambda>r ri. map2 (\<lambda>a b. g * (a - b)) r ri) D2 I"

definition get_grad_gram ::
  "GaussianKernel \<Rightarrow> mat \<Rightarrow> mat \<Rightarrow> error + (ten3 \<times> ten3) \<times> GaussianKernel" where
  "get_grad_gram self X Y =
     (case get_gram_matrix self (Rank2 X) (Rank2 Y) of
        Inl e \<Rightarrow> Inl e
      | Inr (gram0, self') \<Rightarrow>
          let gram = map (map (\<lambda>g. [g])) gram0;
              D = pair_diff (sigma self') X Y;
              K = map2 (map2 (\<lambda>g v. map (\<lambda>a. hd g * a) v)) gram D
          in Inr ((K, gram), self'))"

definition get_grad :: "GaussianKernel \<Rightarrow> mat \<Rightarrow> mat \<Rightarrow> error + ten3 \<times> GaussianKernel" where
  "get_grad self X Y =
     (case get_grad_gram self X Y of
        Inl e \<Rightarrow> Inl e
      | Inr ((K, _), self') \<Rightarrow> Inr (K, self'))"

definition get_hess :: "GaussianKernel \<Rightarrow> mat \<Rightarrow> mat \<Rightarrow> error + ten4 \<times> GaussianKernel" where
  "get_hess self X Y =
     (case get_gram_matrix self (Rank2 X) (Rank2 Y) of
        Inl e \<Rightarrow> Inl e
      | Inr (gram, self') \<Rightarrow>
          let D = pair_diff (sigma self') X Y;
              D2 = outer2 D;
              I = eye_div (ncols X) (sigma self');
              K = map2 (map2 (\<lambda>g d2. hess_block g d2 I)) gram D2
          in Inr (K, self'))"

definition get_grad_hess ::
  "GaussianKernel \<Rightarrow> mat \<Rightarrow> mat \<Rightarrow>
     error + (ten3 \<times> ten4) \<times> GaussianKernel" where
  "get_grad_hess self X Y =
     (case get_gram_matrix self (Rank2 X) (Rank2 Y) of
        Inl e \<Rightarrow> Inl e
      | Inr (gram, self') \<Rightarrow>
          let D = pair_diff (sigma self') X Y;
              K1 = map2 (map2 (\<lambda>g v. map (\<lambda>a. g * a) v)) gram D;
              D2 = outer2 D;
              I = eye_div (ncols X) (sigma self');
              K2 = map2 (map2 (\<lambda>g d2. hess_block g d2 I)) gram D2
          in Inr ((K1, K2), self'))"

section \<open>Dataflow graph of the feature network and the host's differentiation\<close>

text \<open>
  The network's forward pass builds a dataflow graph over the batch placeholder, and
  \<open>tf.gradients\<close> differentiates that graph. Scalar entries of graph tensors are
  \<open>node\<close>s; \<open>Input j k\<close> is entry (j, k) of the placeholder of shape
  (batch_size, d); variables (W, b) and fed constants are \<open>Const\<close>.
  \<open>Select a b x y\<close> is \<open>where(a >= b, x, y)\<close>, which the gradient of
  \<open>tf.maximum\<close> produces; \<open>Cast_gt0 a\<close> and \<open>Cast_le0 a\<close> are
  \<open>tf.cast(a > 0, 'float32')\<close> and \<open>tf.cast(a <= 0, 'float32')\<close>.
\<close>

datatype node =
    Const real
  | Input nat nat
  | Add node node
  | Mul node node
  | Maximum node node
  | Select node node node node
  | Cast_gt0 node
  | Cast_le0 node

text \<open>The value of a node when the host feeds the placeholder with \<open>feed\<close>.\<close>

fun eval :: "mat \<Rightarrow> node \<Rightarrow> real" where
  "eval feed (Const c) = c"
| "eval feed (Input j k) = feed ! j ! k"
| "eval feed (Add a b) = eval feed a + eval feed b"
| "eval feed (Mul a b) = eval feed a * eval feed b"
| "eval feed (Maximum a b) = max (eval feed a) (eval feed b)"
| "eval feed (Select a b x y) = (if eval feed a \<ge> eval feed b then eval feed x else eval feed y)"
| "eval feed (Cast_gt0 a) = (if eval feed a > 0 then 1 else 0)"
| "eval feed (Cast_le0 a) = (if eval feed a \<le> 0 then 1 else 0)"

text \<open>
  Whether a differentiable path leads from the placeholder to the node. Comparisons and
  the condition of a select carry no gradient.
\<close>

fun connected :: "node \<Rightarrow> bool" where
  "connected (Const c) = False"
| "connected (Input j k) = True"
| "connected (Add a b) = (connected a \<or> connected b)"
| "connected (Mul a b) = (connected a \<or> connected b)"
| "connected (Maximum a b) = (connected a \<or> connected b)"
| "connected (Select a b x y) = (connected x \<or> connected y)"
| "connected (Cast_gt0 a) = False"
| "connected (Cast_le0 a) = False"

text \<open>
  The gradient graph of a node with respect to entry (j, k) of the placeholder, as
  back-propagation builds it: a product sends \<open>g * b\<close> to a and \<open>g * a\<close> to b,
  and only towards operands that the placeholder reaches; a maximum sends the gradient
  to its first operand where \<open>a >= b\<close> and to the second elsewhere.
\<close>

fun partial :: "nat \<Rightarrow> nat \<Rightarrow> node \<Rightarrow> node" where
  "partial j k (Const c) = Const 0"
| "partial j k (Input j' k') = Const (if j = j' \<and> k = k' then 1 else 0)"
| "partial j k (Add a b) = Add (partial j k a) (partial j k b)"
| "partial j k (Mul a b) =
     Add (if connected a then Mul (partial j k a) b else Const 0)
         (if connected b then Mul a (partial j k b) else Const 0)"
| "partial j k (Maximum a b) = Select a b (partial j k a) (partial j k b)"
| "partial j k (Select a b x y) = Select a b (partial j k x) (partial j k y)"
| "partial j k (Cast_gt0 a) = Const 0"
| "partial j k (Cast_le0 a) = Const 0"

text \<open>
  \<open>tf.gradients(f, batch)[0]\<close> for a scalar node f and the placeholder of shape
  (bs, d): \<open>None\<close> when no differentiable path leads from the placeholder to f.
\<close>

definition gradients :: "nat \<Rightarrow> nat \<Rightarrow> node \<Rightarrow> node list list option" where
  "gradients bs d f =
     (if connected f
      then Some (map (\<lambda>j. map (\<lambda>k. partial j k f) [0..<d]) [0..<bs])
      else None)"

text \<open>\<open>tf.reduce_sum\<close> over a list of nodes.\<close>

definition sum_nodes :: "node list \<Rightarrow> node" where
  "sum_nodes xs = foldr Add xs (Const 0)"

section \<open>Networks\<close>

text \<open>
  The dense networks multiply rank-2 data by W with \<open>tf.matmul\<close>, so their
  \<open>ndim_in\<close> is a 1-tuple (d,) and \<open>ndim_out\<close> a 1-tuple (n,); W has shape
  (n, d), b has shape (1, n). \<open>lin_grads\<close> holds \<open>lin_grads[0]\<close> and
  \<open>lin_grads[1]\<close>.
\<close>

record net_params =
  ndim_in :: "nat list"
  ndim_out :: "nat list"
  batch_size :: nat
  W :: mat
  b :: vec

datatype network =
    LinearNetwork net_params
  | LinearReLUNetwork net_params "real \<times> real"

fun params :: "network \<Rightarrow> net_params" where
  "params (LinearNetwork p) = p"
| "params (LinearReLUNetwork p lg) = p"

text \<open>
  What the constructors build: the shapes of W and b follow the declared dimensions. The
  dimensions and the batch size are positive.
\<close>

definition wf_params :: "net_params \<Rightarrow> bool" where
  "wf_params p =
     (length (ndim_in p) = 1 \<and> length (ndim_out p) = 1 \<and>
      0 < ndim_in p ! 0 \<and> 0 < ndim_out p ! 0 \<and> 0 < batch_size p \<and>
      length (W p) = ndim_out p ! 0 \<and>
      list_all (\<lambda>w. length w = ndim_in p ! 0) (W p) \<and>
      length (b p) = ndim_out p ! 0)"

text \<open>
  \<open>reshape_data_tensor\<close> on a rank-2 tensor: the rows must have the declared
  input shape, and the tensor is not a single example.
\<close>

definition reshape_data_tensor :: "nat list \<Rightarrow> 'a list list \<Rightarrow> error + 'a list list \<times> bool" where
  "reshape_data_tensor nin x =
     (if list_all (\<lambda>r. [length r] = nin) x then Inr (x, False) else Inl NameError)"

text \<open>\<open>tf.matmul(data, W, transpose_b = True)\<close> followed by \<open>out += b\<close>.\<close>

definition matmul_T :: "node list list \<Rightarrow> mat \<Rightarrow> node list list" where
  "matmul_T data Wm = map (\<lambda>x. map (\<lambda>w. sum_nodes (map2 (\<lambda>a c. Mul a (Const c)) x w)) Wm) data"

definition add_bias :: "node list list \<Rightarrow> vec \<Rightarrow> node list list" where
  "add_bias out bv = map (\<lambda>row. map2 (\<lambda>a c. Add a (Const c)) row bv) out"

fun forward_tensor :: "network \<Rightarrow> node list list \<Rightarrow> error + node list list" where
  "forward_tensor (LinearNetwork p) data =
     (case reshape_data_tensor (ndim_in p) data of
        Inl e \<Rightarrow> Inl e
      | Inr (data', single) \<Rightarrow> Inr (add_bias (matmul_T data' (W p)) (b p)))"
| "forward_tensor (LinearReLUNetwork p lg) data =
     (case reshape_data_tensor (ndim_in p) data of
        Inl e \<Rightarrow> Inl e
      | Inr (data', single) \<Rightarrow>
          Inr (map (map (\<lambda>out. Maximum (Mul out (Const (snd lg))) (Mul out (Const (fst lg)))))
                 (add_bias (matmul_T data' (W p)) (b p))))"

text \<open>\<open>tf.placeholder(tf.float32, shape = (batch_size,) + ndim_in)\<close>.\<close>

definition placeholder :: "nat \<Rightarrow> nat list \<Rightarrow> node list list" where
  "placeholder bs nin = map (\<lambda>j. map (\<lambda>k. Input j k) [0..<prod_list nin]) [0..<bs]"

record SumOutputNet =
  son_batch :: "node list list"
  son_output :: "node list list"
  son_sum_output :: "node list"

definition SumOutputNet_init :: "network \<Rightarrow> error + SumOutputNet" where
  "SumOutputNet_init net =
     (let p = params net; ph = placeholder (batch_size p) (ndim_in p) in
      case forward_tensor net ph of
        Inl e \<Rightarrow> Inl e
      | Inr out \<Rightarrow>
          Inr \<lparr>son_batch = ph, son_output = out,
               son_sum_output = map (\<lambda>oi. sum_nodes (map (\<lambda>row. row ! oi) out)) [0..<length (W p)]\<rparr>)"

text \<open>
  The first pass of \<open>Network.get_sec_data\<close>:
  \<open>tf.stack([tf.gradients(son.sum_output[oi], son.batch)[0] for oi in
  xrange(self.ndim_out[0])])\<close>; stacking a \<open>None\<close> is rejected by the host.
\<close>

definition stack_gradients :: "net_params \<Rightarrow> SumOutputNet \<Rightarrow> error + node list list list" where
  "stack_gradients p son =
     (case those (map (\<lambda>oi. gradients (batch_size p) (prod_list (ndim_in p)) (son_sum_output son ! oi))
                   [0..<ndim_out p ! 0]) of
        None \<Rightarrow> Inl ValueError
      | Some grad \<Rightarrow> Inr grad)"

text \<open>\<open>_grad_zero(f, [son.batch])[0]\<close>.\<close>

definition grad_zero :: "nat \<Rightarrow> nat \<Rightarrow> node \<Rightarrow> node list list" where
  "grad_zero bs d f =
     (case gradients bs d f of
        None \<Rightarrow> replicate bs (replicate d (Const 0))
      | Some g \<Rightarrow> g)"

text \<open>
  \<open>g_flat = tf.reshape(tf.reduce_sum(grad, 1), [self.ndim_out[0], -1])\<close>: the
  gradient summed over the batch, one row per output.
\<close>

definition g_flat_of :: "nat \<Rightarrow> node list list list \<Rightarrow> node list list" where
  "g_flat_of d grad = map (\<lambda>g. map (\<lambda>k. sum_nodes (map (\<lambda>row. row ! k) g)) [0..<d]) grad"

text \<open>
  \<open>get_sec_data\<close>: for every output oi and input coordinate i, entry (oi, i) of
  \<open>g_flat\<close> is differentiated again and the entries (j, i) are gathered over the
  batch index j; the stack of shape (n, d, bs) is transposed to (n, bs, d).
\<close>

definition get_sec_data ::
  "network \<Rightarrow> error + node list list list \<times> node list list list \<times> node list list" where
  "get_sec_data net =
     (case SumOutputNet_init net of
        Inl e \<Rightarrow> Inl e
      | Inr son \<Rightarrow>
          (case stack_gradients (params net) son of
             Inl e \<Rightarrow> Inl e
           | Inr grad \<Rightarrow>
               let p = params net; bs = batch_size p; d = prod_list (ndim_in p);
                   n = ndim_out p ! 0;
                   g_flat = g_flat_of d grad;
                   raveled_index = [0..<d];
                   sec = map (\<lambda>oi. map (\<lambda>i. map (\<lambda>j. grad_zero bs d (g_flat ! oi ! i) ! j ! i)
                                                 [0..<bs]) raveled_index) [0..<n];
                   sec_stack = map (\<lambda>s. map (\<lambda>j. map (\<lambda>i. s ! i ! j) [0..<d]) [0..<bs]) sec
               in Inr (sec_stack, grad, son_output son)))"

text \<open>\<open>LinearNetwork.get_grad_data\<close>: W tiled over the batch, transposed to (n, bs, d).\<close>

definition Linear_get_grad_data :: "net_params \<Rightarrow> error + node list list list \<times> node list list" where
  "Linear_get_grad_data p =
     (let data0 = placeholder (batch_size p) (ndim_in p) in
      case reshape_data_tensor (ndim_in p) data0 of
        Inl e \<Rightarrow> Inl e
      | Inr (data, single) \<Rightarrow>
          (case forward_tensor (LinearNetwork p) data of
             Inl e \<Rightarrow> Inl e
           | Inr out \<Rightarrow>
               let grad0 = replicate (batch_size p) (map (map Const) (W p));
                   grad = map (\<lambda>oi. map (\<lambda>j. grad0 ! j ! oi) [0..<batch_size p]) [0..<length (W p)]
               in Inr (grad, out)))"

text \<open>\<open>LinearReLUNetwork.get_grad_input(i, o)\<close>, of shape (bs, n, d).\<close>

definition get_grad_input :: "net_params \<Rightarrow> real \<times> real \<Rightarrow> node list list \<Rightarrow> node list list list" where
  "get_grad_input p lg out =
     map (map2 (\<lambda>w oe. map (\<lambda>c. Mul (Add (Mul (Const (snd lg)) (Cast_gt0 oe))
                                              (Mul (Const (fst lg)) (Cast_le0 oe))) (Const c)) w)
            (W p)) out"

definition LinearReLU_get_grad_data ::
  "net_params \<Rightarrow> real \<times> real \<Rightarrow> error + node list list list \<times> node list list" where
  "LinearReLU_get_grad_data p lg =
     (let data0 = placeholder (batch_size p) (ndim_in p) in
      case reshape_data_tensor (ndim_in p) data0 of
        Inl e \<Rightarrow> Inl e
      | Inr (data, single) \<Rightarrow>
          (case forward_tensor (LinearReLUNetwork p lg) data of
             Inl e \<Rightarrow> Inl e
           | Inr out \<Rightarrow>
               let grad0 = get_grad_input p lg out;
                   grad = map (\<lambda>oi. map (\<lambda>j. grad0 ! j ! oi) [0..<batch_size p]) [0..<length (W p)]
               in Inr (grad, out)))"

text \<open>Method dispatch: both dense networks override \<open>get_grad_data\<close>.\<close>

fun get_grad_data :: "network \<Rightarrow> error + node list list list \<times> node list list" where
  "get_grad_data (LinearNetwork p) = Linear_get_grad_data p"
| "get_grad_data (LinearReLUNetwork p lg) = LinearReLU_get_grad_data p lg"

text \<open>
  The host evaluating the nodes that \<open>get_grad_data\<close> returns, with the placeholder
  fed with \<open>data\<close>: the Jacobian and the network output as numbers.
\<close>

definition run_grad_data :: "network \<Rightarrow> mat \<Rightarrow> error + ten3 \<times> mat" where
  "run_grad_data net data =
     (case get_grad_data net of
        Inl e \<Rightarrow> Inl e
      | Inr (grad, out) \<Rightarrow> Inr (map (map (map (eval data))) grad, map (map (eval data)) out))"

text \<open>\<open>get_param_size\<close>: the sum of squares of W and b.\<close>

definition get_param_size :: "network \<Rightarrow> real" where
  "get_param_size net =
     0 + sum_list (map (\<lambda>w. sum_list (map (\<lambda>c. c ^ 2) w)) (W (params net)))
       + sum_list (map (\<lambda>c. c ^ 2) (b (params net)))"

section \<open>KernelNetModel\<close>

text \<open>
  The model's methods build a graph over a placeholder for the basis points and the
  network's batch placeholder. They are modelled by the value the graph takes when the
  host feeds \<open>points\<close> and \<open>data\<close>: the network's own graph is built
  symbolically, differentiated, and evaluated at the fed batch; the kernel operations,
  which are never differentiated, act on the values.
\<close>

record KernelNetModel =
  alpha :: vec
  npoint :: nat
  ndim :: nat
  self_ndim_in :: "nat list"
  network :: network
  kernel :: GaussianKernel
  self_X :: "mat option"

text \<open>\<open>self.network.forward_tensor(data)\<close> at fed values.\<close>

definition process_data :: "KernelNetModel \<Rightarrow> mat \<Rightarrow> error + mat" where
  "process_data self data =
     (case forward_tensor (network self) (map (map Const) data) of
        Inl e \<Rightarrow> Inl e
      | Inr Y \<Rightarrow> Inr (map (map (eval [])) Y))"

definition set_points :: "KernelNetModel \<Rightarrow> mat \<Rightarrow> error + KernelNetModel" where
  "set_points self points =
     (if \<not> list_all (\<lambda>r. [length r] = self_ndim_in self) points then Inl AssertionError
      else
        case process_data self points of
          Inl e \<Rightarrow> Inl e
        | Inr Xv \<Rightarrow> Inr (self\<lparr>self_X := Some Xv\<rparr>))"

definition KernelNetModel_init ::
  "GaussianKernel \<Rightarrow> network \<Rightarrow> vec \<Rightarrow> mat option \<Rightarrow> error + KernelNetModel" where
  "KernelNetModel_init kern net al points =
     (let self = \<lparr>alpha = al, npoint = length al, ndim = ndim_out (params net) ! 0,
                  self_ndim_in = ndim_in (params net), network = net, kernel = kern,
                  self_X = None\<rparr>
      in case points of None \<Rightarrow> Inr self | Some pts \<Rightarrow> set_points self pts)"

text \<open>\<open>tf.reduce_sum(self.alpha[:,None,None] * K1, 0)\<close>, of shape (n, d).\<close>

definition alpha_sum3 :: "vec \<Rightarrow> ten3 \<Rightarrow> nat \<Rightarrow> nat \<Rightarrow> mat" where
  "alpha_sum3 al K n d =
     map (\<lambda>j. map (\<lambda>k. sum_list (map2 (\<lambda>a Ki. a * Ki ! j ! k) al K)) [0..<d]) [0..<n]"

text \<open>\<open>tf.reduce_sum(self.alpha[:,None,None,None] * K2, 0)\<close>, of shape (n, d, d).\<close>

definition alpha_sum4 :: "vec \<Rightarrow> ten4 \<Rightarrow> nat \<Rightarrow> nat \<Rightarrow> ten3" where
  "alpha_sum4 al K n d =
     map (\<lambda>j. map (\<lambda>k. map (\<lambda>l. sum_list (map2 (\<lambda>a Ki. a * Ki ! j ! k ! l) al K))
                              [0..<d]) [0..<d]) [0..<n]"

definition get_kernel_fun_grad_hess ::
  "KernelNetModel \<Rightarrow> mat \<Rightarrow> error + (mat \<times> ten3) \<times> KernelNetModel" where
  "get_kernel_fun_grad_hess self Y =
     (case self_X self of
        None \<Rightarrow> Inl AttributeError
      | Some Xv \<Rightarrow>
          (case get_grad_hess (kernel self) Xv Y of
             Inl e \<Rightarrow> Inl e
           | Inr ((K1, K2), kern') \<Rightarrow>
               let grad = alpha_sum3 (alpha self) K1 (length Y) (ndim self);
                   hess = alpha_sum4 (alpha self) K2 (length Y) (ndim self)
               in Inr ((grad, hess), self\<lparr>kernel := kern'\<rparr>)))"

text \<open>
  \<open>tf.einsum('jk,kjs->js', dfdy, dydx)\<close>: j runs over the batch, k over the
  features, s over the input coordinates.
\<close>

definition einsum_jk_kjs :: "nat \<Rightarrow> nat \<Rightarrow> nat \<Rightarrow> mat \<Rightarrow> ten3 \<Rightarrow> mat" where
  "einsum_jk_kjs bs nd din dfdy dydx =
     map (\<lambda>j. map (\<lambda>s. sum_list (map (\<lambda>k. dfdy ! j ! k * dydx ! k ! j ! s) [0..<nd]))
                    [0..<din]) [0..<bs]"

text \<open>\<open>tf.einsum('jkl,kjs,ljs->js', d2fdy2, dydx, dydx)\<close>.\<close>

definition einsum_jkl_kjs_ljs :: "nat \<Rightarrow> nat \<Rightarrow> nat \<Rightarrow> ten3 \<Rightarrow> ten3 \<Rightarrow> mat" where
  "einsum_jkl_kjs_ljs bs nd din d2fdy2 dydx =
     map (\<lambda>j. map (\<lambda>s. sum_list (map (\<lambda>k. sum_list (map (\<lambda>l.
                 d2fdy2 ! j ! k ! l * dydx ! k ! j ! s * dydx ! l ! j ! s) [0..<nd])) [0..<nd]))
                    [0..<din]) [0..<bs]"

text \<open>\<open>tf.reduce_sum(d2fdx2 + 0.5 * dfdx**2)\<close>.\<close>

definition reduce_score :: "mat \<Rightarrow> mat \<Rightarrow> real" where
  "reduce_score d2fdx2 dfdx =
     sum_list (map2 (\<lambda>r2 r1. sum_list (map2 (\<lambda>h g. h + 0.5 * g ^ 2) r2 r1)) d2fdx2 dfdx)"

definition score :: "KernelNetModel \<Rightarrow> mat \<Rightarrow> mat \<Rightarrow> real \<Rightarrow> error + real \<times> KernelNetModel" where
  "score self points data lam =
     (case process_data self points of
        Inl e \<Rightarrow> Inl e
      | Inr Xv \<Rightarrow>
          let self1 = self\<lparr>self_X := Some Xv\<rparr> in
          (case get_sec_data (network self1) of
             Inl e \<Rightarrow> Inl e
           | Inr (sec, grad, out) \<Rightarrow>
               let d2ydx2 = map (map (map (eval data))) sec;
                   dydx = map (map (map (eval data))) grad;
                   y = map (map (eval data)) out
               in
               (case get_kernel_fun_grad_hess self1 y of
                  Inl e \<Rightarrow> Inl e
                | Inr ((dfdy, d2fdy2), self2) \<Rightarrow>
                    let bs = batch_size (params (network self2));
                        din = prod_list (self_ndim_in self2);
                        dfdx = einsum_jk_kjs bs (ndim self2) din dfdy dydx;
                        d2fdx2 = map2 (map2 (+))
                                   (einsum_jkl_kjs_ljs bs (ndim self2) din d2fdy2 dydx)
                                   (einsum_jk_kjs bs (ndim self2) din dfdy d2ydx2);
                        sc = reduce_score d2fdx2 dfdx
                    in Inr (sc + lam * get_param_size (network self2), self2))))"

definition linear_score :: "KernelNetModel \<Rightarrow> mat \<Rightarrow> mat \<Rightarrow> real \<Rightarrow> error + real \<times> KernelNetModel" where
  "linear_score self points data lam =
     (case set_points self points of
        Inl e \<Rightarrow> Inl e
      | Inr self1 \<Rightarrow>
          (case get_grad_data (network self1) of
             Inl e \<Rightarrow> Inl e
           | Inr (grad, out) \<Rightarrow>
               let dydx = map (map (map (eval data))) grad;
                   y = map (map (eval data)) out
               in
               (case get_kernel_fun_grad_hess self1 y of
                  Inl e \<Rightarrow> Inl e
                | Inr ((dfdy, d2fdy2), self2) \<Rightarrow>
                    let bs = batch_size (params (network self2));
                        din = prod_list (self_ndim_in self2);
                        dfdx = einsum_jk_kjs bs (ndim self2) din dfdy dydx;
                        d2fdx2 = einsum_jkl_kjs_ljs bs (ndim self2) din d2fdy2 dydx;
                        sc = reduce_score d2fdx2 dfdx
                    in Inr (sc + lam * get_param_size (network self2), self2))))"

text \<open>
  \<open>get_opt_alpha\<close>: the points are sent through the network, and the result is
  handed to \<open>set_points\<close>, which checks it against \<open>ndim_in\<close> and sends it
  through the network again. \<open>self.kernel.get_grad(y)\<close> then calls
  \<open>get_grad(self, X, Y)\<close> with one argument, which raises TypeError; no statement
  after that call is reached.
\<close>

definition get_opt_alpha :: "KernelNetModel \<Rightarrow> mat \<Rightarrow> mat \<Rightarrow> error + vec \<times> real \<times> KernelNetModel" where
  "get_opt_alpha self points data =
     (case process_data self points of
        Inl e \<Rightarrow> Inl e
      | Inr P \<Rightarrow>
          (case set_points self P of
             Inl e \<Rightarrow> Inl e
           | Inr self1 \<Rightarrow>
               (case get_sec_data (network self1) of
                  Inl e \<Rightarrow> Inl e
                | Inr (sec, grad, out) \<Rightarrow> Inl TypeError)))"

text \<open>\<open>tf.expand_dims(X, 1) - tf.expand_dims(Y, 0)\<close>, of shape (npoint, N, d).\<close>

definition pair_sub :: "mat \<Rightarrow> mat \<Rightarrow> ten3" where
  "pair_sub Xv Y = map (\<lambda>x. map (\<lambda>y. map2 (-) x y) Y) Xv"

text \<open>\<open>D = 1.0/sigma*self.kernel.pdist2 - ndim\<close>, from the cached distance matrix.\<close>

definition score_original_D :: "real \<Rightarrow> nat \<Rightarrow> mat \<Rightarrow> mat" where
  "score_original_D sig nd pd = map (map (\<lambda>p. 1.0 / sig * p - real nd)) pd"

text \<open>The two terms of J, from alpha, the Gram matrix K, D and the differences S.\<close>

definition score_original_J :: "vec \<Rightarrow> mat \<Rightarrow> mat \<Rightarrow> ten3 \<Rightarrow> nat \<Rightarrow> real \<Rightarrow> nat \<Rightarrow> real" where
  "score_original_J al K D S N sig nd =
     (let J0 = sum_list (map2 (\<lambda>a KD. sum_list (map (\<lambda>(k, dd). a * k * dd) KD))
                  al (map2 zip K D)) * 1.0 / real N / sig;
          T = map2 (\<lambda>a SK. map (\<lambda>(sv, k). map (\<lambda>s. a * s * k) sv) SK) al (map2 zip S K);
          J1 = 0.5 / real N / (sig ^ 2) *
                 sum_list (map (\<lambda>j. sum_list (map (\<lambda>l.
                   (sum_list (map (\<lambda>Ti. Ti ! j ! l) T)) ^ 2) [0..<nd])) [0..<N])
      in J0 + J1)"

definition score_original :: "KernelNetModel \<Rightarrow> mat \<Rightarrow> error + real \<times> KernelNetModel" where
  "score_original self data =
     (let sig = sigma (kernel self) * 1; N = length data; al = alpha self; nd = ndim self in
      case process_data self data of
        Inl e \<Rightarrow> Inl e
      | Inr Y \<Rightarrow>
          (case self_X self of
             None \<Rightarrow> Inl AttributeError
           | Some Xv \<Rightarrow>
               (case get_gram_matrix (kernel self) (Rank2 Xv) (Rank2 Y) of
                  Inl e \<Rightarrow> Inl e
                | Inr (K, kern') \<Rightarrow>
                    (case pdist2 kern' of
                       None \<Rightarrow> Inl TypeError
                     | Some pd \<Rightarrow>
                         let D = score_original_D sig nd pd;
                             S = pair_sub Xv Y
                         in Inr (score_original_J al K D S N sig nd,
                                 self\<lparr>kernel := kern'\<rparr>)))))"

text \<open>\<open>_kernel_score_stats(Y)\<close>: the vector b and the matrix C.\<close>

definition kernel_score_stats :: "KernelNetModel \<Rightarrow> mat \<Rightarrow> error + (vec \<times> mat) \<times> KernelNetModel" where
  "kernel_score_stats self Y =
     (case self_X self of
        None \<Rightarrow> Inl AttributeError
      | Some Xv \<Rightarrow>
          let sig = sigma (kernel self); D = ndim self in
          (case get_gram_matrix (kernel self) (Rank2 Xv) (Rank2 Y) of
             Inl e \<Rightarrow> Inl e
           | Inr (K, kern') \<Rightarrow>
               let S = pair_sub Xv Y;
                   b0 = map (\<lambda>Ki. - real D * sum_list Ki) K;
                   b1 = map2 (\<lambda>bi (Ki, Si). bi + 1 / sig *
                               sum_list (map2 (\<lambda>k sv. k * sum_list (map (\<lambda>s. s ^ 2) sv)) Ki Si))
                          b0 (zip K S);
                   A = map2 (map2 (\<lambda>sv k. map (\<lambda>s. s * k) sv)) S K;
                   SA = map (\<lambda>Ai. map (\<lambda>Aj. sum_list (map2 (\<lambda>u v. sum_list (map2 (*) u v)) Ai Aj)) A) A;
                   C = SA
               in Inr ((b1, C), self\<lparr>kernel := kern'\<rparr>)))"

text \<open>
  \<open>kernel_fit(data, lam)\<close>. The host's \<open>tf.matrix_solve(C, b[:, None])\<close> is
  the parameter \<open>solve\<close>: it yields the entries of the solution, a tensor of shape
  (length x, 1), or \<open>None\<close> when the host finds no solution.
  \<open>tf.squeeze\<close> drops every axis of size 1, so a solution with one entry becomes a
  scalar; \<open>tf.assign\<close> accepts only a value of the shape of \<open>alpha\<close>. The
  argument \<open>lam\<close> is bound and never read. The diagnostic print of C is not
  modelled.
\<close>

definition kernel_fit ::
  "(mat \<Rightarrow> vec \<Rightarrow> vec option) \<Rightarrow> KernelNetModel \<Rightarrow> mat \<Rightarrow> real \<Rightarrow> error + vec \<times> KernelNetModel" where
  "kernel_fit solve self data lam =
     (case process_data self data of
        Inl e \<Rightarrow> Inl e
      | Inr Y \<Rightarrow>
          (case kernel_score_stats self Y of
             Inl e \<Rightarrow> Inl e
           | Inr ((bv, C), self1) \<Rightarrow>
               (case solve C bv of
                  None \<Rightarrow> Inl InvalidArgumentError
                | Some x \<Rightarrow>
                    let alpha_hat = map (\<lambda>v. - sigma (kernel self1) * v) x in
                    if length alpha_hat = 1 \<or> length alpha_hat \<noteq> length (alpha self1)
                    then Inl ValueError
                    else
                      let self2 = self1\<lparr>alpha := alpha_hat\<rparr>
                      in Inr (alpha self2, self2))))"

section \<open>DeepNetwork\<close>

text \<open>
  A layer is any Network: the constructor reads its \<open>ndim_in\<close> (a tuple), its
  \<open>ndim_out\<close> (a tuple, or a plain integer), its \<open>batch_size\<close> and its
  parameter dictionary. The list holds Network objects, so the \<open>isinstance\<close>
  assertion holds for every element.
\<close>

datatype dim = Tuple "nat list" | Scalar nat

record 'p layer =
  layer_ndim_in :: "nat list"
  layer_ndim_out :: dim
  layer_batch_size :: nat
  layer_param :: "(string \<times> 'p) list"

record 'p DeepNetwork =
  nlayer :: nat
  layers :: "'p layer list"
  deep_ndim_out :: dim
  deep_ndim_in :: "nat list"
  deep_batch_size :: nat
  deep_param :: "(string \<times> 'p) list"

text \<open>The shape an output dimension stands for: an integer n is the shape (n,).\<close>

fun shape_of :: "dim \<Rightarrow> nat list" where
  "shape_of (Tuple t) = t"
| "shape_of (Scalar n) = [n]"

text \<open>\<open>str\<close> of a natural number.\<close>

function str_nat :: "nat \<Rightarrow> string" where
  "str_nat n =
     (if n < 10 then [char_of (48 + n)]
      else str_nat (n div 10) @ [char_of (48 + n mod 10)])"
  by pat_completeness auto
termination
  by (relation "measure id") auto

declare str_nat.simps [simp del]

text \<open>Assignment to a key of an ordered dictionary.\<close>

fun dict_set :: "(string \<times> 'p) list \<Rightarrow> string \<Rightarrow> 'p \<Rightarrow> (string \<times> 'p) list" where
  "dict_set [] key v = [(key, v)]"
| "dict_set ((k', v') # rest) key v =
     (if k' = key then (key, v) # rest else (k', v') # dict_set rest key v)"

text \<open>The loop that copies every layer's parameters under the key \<open>'layer' + str(li+1) + lp\<close>.\<close>

fun collect_param :: "nat \<Rightarrow> 'p layer list \<Rightarrow> (string \<times> 'p) list \<Rightarrow> (string \<times> 'p) list" where
  "collect_param li [] acc = acc"
| "collect_param li (l # ls) acc =
     collect_param (li + 1) ls
       (fold (\<lambda>(lp, v) d. dict_set d (''layer'' @ str_nat (li + 1) @ lp) v) (layer_param l) acc)"

text \<open>One pass of the loop of \<open>_check_consistency\<close>, for the layer at index li.\<close>

definition check_layer :: "'p layer list \<Rightarrow> nat \<Rightarrow> nat \<Rightarrow> nat \<Rightarrow> error + unit" where
  "check_layer ls nl bs li =
     (let l = ls ! li in
      if li < nl - 1 \<and>
         \<not> (case layer_ndim_out l of
               Tuple t \<Rightarrow> layer_ndim_in (ls ! (li + 1)) = t
             | Scalar n \<Rightarrow> layer_ndim_in (ls ! (li + 1)) = [n])
      then Inl AssertionError
      else if layer_batch_size l \<noteq> bs then Inl AssertionError
      else Inr ())"

fun check_consistency_loop :: "'p layer list \<Rightarrow> nat \<Rightarrow> nat \<Rightarrow> nat list \<Rightarrow> error + unit" where
  "check_consistency_loop ls nl bs [] = Inr ()"
| "check_consistency_loop ls nl bs (li # lis) =
     (case check_layer ls nl bs li of
        Inl e \<Rightarrow> Inl e
      | Inr u \<Rightarrow> check_consistency_loop ls nl bs lis)"

definition check_consistency :: "'p DeepNetwork \<Rightarrow> 'p layer list \<Rightarrow> error + unit" where
  "check_consistency self ls =
     check_consistency_loop ls (nlayer self) (deep_batch_size self) [0..<length ls]"

definition DeepNetwork_init :: "'p layer list \<Rightarrow> error + 'p DeepNetwork" where
  "DeepNetwork_init ls =
     (if ls = [] then Inl IndexError
      else
        let self = \<lparr>nlayer = length ls, layers = ls,
                     deep_ndim_out = layer_ndim_out (last ls),
                     deep_ndim_in = layer_ndim_in (hd ls),
                     deep_batch_size = layer_batch_size (hd ls),
                     deep_param = collect_param 0 ls []\<rparr>
        in case check_consistency self ls of
             Inl e \<Rightarrow> Inl e
           | Inr u \<Rightarrow> Inr self)"

section \<open>Reference definitions\<close>

text \<open>
  The pairwise squared distance computed directly, \<open>\<Sum>\<^sub>k (x\<^sub>k - y\<^sub>k)\<^sup>2\<close>: the
  reference that \<open>get_pdist2\<close> is compared with.
\<close>

definition dist2 :: "vec \<Rightarrow> vec \<Rightarrow> real" where
  "dist2 x y = sum_list (map2 (\<lambda>a b. (a - b) ^ 2) x y)"

text \<open>
  The pre-activation \<open>W x\<^sub>j + b\<close> of output oi on example j of a batch, as a
  number.
\<close>

definition pre_activation :: "net_params \<Rightarrow> mat \<Rightarrow> nat \<Rightarrow> nat \<Rightarrow> real" where
  "pre_activation p data j oi = dot (data ! j) (W p ! oi) + b p ! oi"

text \<open>
  Nodes that are piecewise linear in the placeholder: every product has a factor that
  the placeholder does not reach.
\<close>

fun pw_linear :: "node \<Rightarrow> bool" where
  "pw_linear (Const c) = True"
| "pw_linear (Input j k) = True"
| "pw_linear (Add a c) = (pw_linear a \<and> pw_linear c)"
| "pw_linear (Mul a c) = ((pw_linear a \<and> \<not> connected c) \<or> (\<not> connected a \<and> pw_linear c))"
| "pw_linear (Maximum a c) = (pw_linear a \<and> pw_linear c)"
| "pw_linear (Select a c x y) = (pw_linear x \<and> pw_linear y)"
| "pw_linear (Cast_gt0 a) = True"
| "pw_linear (Cast_le0 a) = True"

text \<open>
  The node that \<open>forward_tensor\<close> builds for output oi of one example x: the affine
  pre-activation, and the network's activation applied to it.
\<close>

definition pre_node :: "net_params \<Rightarrow> node list \<Rightarrow> nat \<Rightarrow> node" where
  "pre_node p x oi =
     Add (sum_nodes (map2 (\<lambda>a c. Mul a (Const c)) x (W p ! oi))) (Const (b p ! oi))"

fun act_node :: "network \<Rightarrow> node \<Rightarrow> node" where
  "act_node (LinearNetwork p) v = v"
| "act_node (LinearReLUNetwork p lg) v = Maximum (Mul v (Const (snd lg))) (Mul v (Const (fst lg)))"

text \<open>
  The output node of example j and output oi when the network is applied to the batch
  placeholder, and the entries of \<open>sum_output\<close>.
\<close>

definition out_node :: "network \<Rightarrow> nat \<Rightarrow> nat \<Rightarrow> node" where
  "out_node net j oi =
     act_node net (pre_node (params net) (map (Input j) [0..<ndim_in (params net) ! 0]) oi)"

definition sum_out_node :: "network \<Rightarrow> nat \<Rightarrow> node" where
  "sum_out_node net oi = sum_nodes (map (\<lambda>j. out_node net j oi) [0..<batch_size (params net)])"

text \<open>
  The slope of the activation at example j and output oi of a fed batch: as
  back-propagation through \<open>tf.maximum\<close> selects it (\<open>ad_slope\<close>), and as
  \<open>get_grad_input\<close> gates it on the sign of the output (\<open>gate_slope\<close>).
\<close>

fun ad_slope :: "network \<Rightarrow> mat \<Rightarrow> nat \<Rightarrow> nat \<Rightarrow> real" where
  "ad_slope (LinearNetwork p) data j oi = 1"
| "ad_slope (LinearReLUNetwork p lg) data j oi =
     (if pre_activation p data j oi * snd lg \<ge> pre_activation p data j oi * fst lg
      then snd lg else fst lg)"

fun gate_slope :: "network \<Rightarrow> mat \<Rightarrow> nat \<Rightarrow> nat \<Rightarrow> real" where
  "gate_slope (LinearNetwork p) data j oi = 1"
| "gate_slope (LinearReLUNetwork p lg) data j oi =
     (if max (pre_activation p data j oi * snd lg) (pre_activation p data j oi * fst lg) > 0
      then snd lg else fst lg)"

text \<open>
  The network output at a fed batch, of shape (bs, n), and the Jacobian of shape
  (n, bs, d) with the slope of the activation taken either way.
\<close>

definition net_out :: "network \<Rightarrow> mat \<Rightarrow> mat" where
  "net_out net data =
     map (\<lambda>j. map (\<lambda>oi. eval data (out_node net j oi)) [0..<ndim_out (params net) ! 0])
       [0..<batch_size (params net)]"

definition jacobian_ad :: "network \<Rightarrow> mat \<Rightarrow> ten3" where
  "jacobian_ad net data =
     map (\<lambda>oi. map (\<lambda>j. map (\<lambda>k. ad_slope net data j oi * W (params net) ! oi ! k)
                               [0..<ndim_in (params net) ! 0])
                    [0..<batch_size (params net)])
       [0..<ndim_out (params net) ! 0]"

definition jacobian_gate :: "network \<Rightarrow> mat \<Rightarrow> ten3" where
  "jacobian_gate net data =
     map (\<lambda>oi. map (\<lambda>j. map (\<lambda>c. gate_slope net data j oi * c) (W (params net) ! oi))
                    [0..<batch_size (params net)])
       [0..<ndim_out (params net) ! 0]"


section \<open>The Gaussian kernel\<close>

lemma expand_dist2:
  "length x = length y \<Longrightarrow> row_sq x - 2 * dot x y + row_sq y = dist2 x y"
proof (induction x y rule: list_induct2)
  case Nil
  show ?case by (simp add: row_sq_def dot_def dist2_def)
next
  case (Cons a x c y)
  have "(a - c) ^ 2 = a ^ 2 - 2 * (a * c) + c ^ 2"
    by (simp add: power2_diff)
  with Cons.IH show ?case
    by (simp add: row_sq_def dot_def dist2_def algebra_simps)
qed

lemma same_cols_wf:
  "\<forall>x\<in>set A. length x = d \<Longrightarrow> \<forall>y\<in>set B. length y = d \<Longrightarrow> same_cols A B"
  by (simp add: same_cols_def list_all_iff)

lemma get_pdist2_wf:
  assumes "\<forall>x\<in>set A. length x = d" "\<forall>y\<in>set B. length y = d"
  shows "get_pdist2 self (Rank2 A) (Rank2 B) =
           Inr (map (\<lambda>x. map (\<lambda>y. dist2 x y) B) A,
                self\<lparr>pdist2 := Some (map (\<lambda>x. map (\<lambda>y. dist2 x y) B) A)\<rparr>)"
proof -
  have "map (\<lambda>x. map (\<lambda>y. row_sq x - 2.0 * dot x y + row_sq y) B) A
        = map (\<lambda>x. map (\<lambda>y. dist2 x y) B) A"
    using assms by (auto intro!: expand_dist2)
  with same_cols_wf[OF assms] show ?thesis
    by (simp add: get_pdist2_def Let_def)
qed

lemma gram_closed_form:
  assumes "\<forall>x\<in>set A. length x = d" "\<forall>y\<in>set B. length y = d"
  shows "get_gram_matrix self (Rank2 A) (Rank2 B) =
           Inr (map (\<lambda>x. map (\<lambda>y. exp (- dist2 x y / (2 * sigma self))) B) A,
                self\<lparr>pdist2 := Some (map (\<lambda>x. map (\<lambda>y. dist2 x y) B) A)\<rparr>)"
  by (simp add: get_gram_matrix_def get_pdist2_wf[OF assms] o_def)

text \<open>
  Claim C5. For batches A (m rows) and B (n rows) of feature dimension d and
  \<open>sigma > 0\<close>, \<open>get_gram_matrix\<close> returns the m-by-n matrix with entries
  \<open>exp (- \<parallel>x\<^sub>i - y\<^sub>j\<parallel>\<^sup>2 / (2 sigma))\<close>, and the squared distances it computes by the
  expansion \<open>\<parallel>x\<parallel>\<^sup>2 - 2 x\<cdot>y + \<parallel>y\<parallel>\<^sup>2\<close> (the matrix returned by \<open>get_pdist2\<close> and
  kept in the \<open>pdist2\<close> field) are the directly computed ones.
\<close>

theorem get_gram_matrix_entries:
  assumes "\<forall>x\<in>set A. length x = d" "\<forall>y\<in>set B. length y = d" "0 < sigma self"
  shows "get_gram_matrix self (Rank2 A) (Rank2 B) =
           Inr (map (\<lambda>x. map (\<lambda>y. exp (- dist2 x y / (2 * sigma self))) B) A,
                self\<lparr>pdist2 := Some (map (\<lambda>x. map (\<lambda>y. dist2 x y) B) A)\<rparr>)
         \<and> get_pdist2 self (Rank2 A) (Rank2 B) =
           Inr (map (\<lambda>x. map (\<lambda>y. dist2 x y) B) A,
                self\<lparr>pdist2 := Some (map (\<lambda>x. map (\<lambda>y. dist2 x y) B) A)\<rparr>)"
  using gram_closed_form[OF assms(1,2)] get_pdist2_wf[OF assms(1,2)] by simp

theorem get_gram_matrix_entries_witness:
  "get_gram_matrix \<lparr>sigma = 2, pdist2 = None\<rparr> (Rank2 [[0, 0], [1, 2]]) (Rank2 [[1, 0]]) =
     Inr ([[exp (- 1 / 4)], [exp (- 1)]], \<lparr>sigma = 2, pdist2 = Some [[1], [4]]\<rparr>)
   \<and> get_pdist2 \<lparr>sigma = 2, pdist2 = None\<rparr> (Rank2 [[0, 0], [1, 2]]) (Rank2 [[1, 0]]) =
     Inr ([[1], [4]], \<lparr>sigma = 2, pdist2 = Some [[1], [4]]\<rparr>)"
  using get_gram_matrix_entries [of "[[0, 0], [1, 2]]" 2 "[[1, 0]]" "\<lparr>sigma = 2, pdist2 = None\<rparr>"]
  by (simp add: dist2_def)

lemma map2_map_same: "map2 f (map g xs) (map h xs) = map (\<lambda>x. f (g x) (h x)) xs"
  by (induction xs) simp_all

lemma map2_nth:
  "length x = d \<Longrightarrow> length y = d \<Longrightarrow> map2 f x y = map (\<lambda>k. f (x ! k) (y ! k)) [0..<d]"
  by (rule nth_equalityI) simp_all

lemma map2_map1: "map2 f (map h xs) ys = map2 (\<lambda>x y. f (h x) y) xs ys"
  by (induction xs arbitrary: ys) (simp, case_tac ys, simp_all)

lemma ncols_wf: "x \<in> set A \<Longrightarrow> \<forall>x\<in>set A. length x = d \<Longrightarrow> ncols A = d"
  by (cases A) (auto simp: ncols_def)

lemma hess_block_entries:
  "hess_block g (map (\<lambda>a. map (\<lambda>c. a * c) (map v [0..<d])) (map v [0..<d])) (eye_div d s) =
     map (\<lambda>k. map (\<lambda>l. g * (v k * v l - (if k = l then 1 else 0) / s)) [0..<d]) [0..<d]"
  by (simp add: hess_block_def eye_div_def map2_map_same o_def)

lemma get_grad_entries:
  assumes "\<forall>x\<in>set A. length x = d" "\<forall>y\<in>set B. length y = d"
  shows "get_grad self A B =
           Inr (map (\<lambda>x. map (\<lambda>y. map (\<lambda>k.
                  exp (- dist2 x y / (2 * sigma self)) * ((x ! k - y ! k) / sigma self))
                  [0..<d]) B) A,
                self\<lparr>pdist2 := Some (map (\<lambda>x. map (\<lambda>y. dist2 x y) B) A)\<rparr>)"
proof -
  have row: "map (\<lambda>a. g * a) (map2 (\<lambda>a c. (a - c) / s) x y) =
             map (\<lambda>k. g * ((x ! k - y ! k) / s)) [0..<d]"
    if "x \<in> set A" "y \<in> set B" for x y g s
  proof -
    have lx: "length x = d" and ly: "length y = d" using that assms by auto
    show ?thesis unfolding map2_nth[OF lx ly] by (simp add: o_def)
  qed
  show ?thesis
    using row
    by (simp add: get_grad_def get_grad_gram_def gram_closed_form[OF assms] Let_def
        pair_diff_def map2_map_same o_def cong: map_cong)
qed

lemma get_hess_entries:
  assumes "\<forall>x\<in>set A. length x = d" "\<forall>y\<in>set B. length y = d"
  shows "get_hess self A B =
           Inr (map (\<lambda>x. map (\<lambda>y. map (\<lambda>k. map (\<lambda>l.
                  exp (- dist2 x y / (2 * sigma self)) *
                    ((x ! k - y ! k) / sigma self * ((x ! l - y ! l) / sigma self)
                      - (if k = l then 1 else 0) / sigma self)) [0..<d]) [0..<d]) B) A,
                self\<lparr>pdist2 := Some (map (\<lambda>x. map (\<lambda>y. dist2 x y) B) A)\<rparr>)"
proof -
  have blk: "hess_block g (map (\<lambda>a. map (\<lambda>c. a * c) (map2 (\<lambda>a c. (a - c) / s) x y))
                 (map2 (\<lambda>a c. (a - c) / s) x y)) (eye_div (ncols A) s) =
             map (\<lambda>k. map (\<lambda>l. g * ((x ! k - y ! k) / s * ((x ! l - y ! l) / s)
                      - (if k = l then 1 else 0) / s)) [0..<d]) [0..<d]"
    if "x \<in> set A" "y \<in> set B" for x y g s
  proof -
    have lx: "length x = d" and ly: "length y = d" using that assms by auto
    have nc: "ncols A = d" using that(1) assms(1) by (rule ncols_wf)
    show ?thesis
      unfolding nc map2_nth[OF lx ly] by (rule hess_block_entries)
  qed
  show ?thesis
    using blk
    by (simp add: get_hess_def gram_closed_form[OF assms] Let_def pair_diff_def
        outer2_def map2_map_same o_def cong: map_cong)
qed

lemma dist2_update:
  "length x = length y \<Longrightarrow> l < length y \<Longrightarrow>
     dist2 x (y[l := t]) = dist2 x y - (x ! l - y ! l) ^ 2 + (x ! l - t) ^ 2"
proof (induction x y arbitrary: l rule: list_induct2)
  case Nil
  then show ?case by simp
next
  case (Cons a x c y)
  then show ?case
    by (cases l) (simp_all add: dist2_def)
qed

lemma kgrad_deriv:
  assumes "length x = length y" "l < length y" "k < length y" "s \<noteq> 0"
  shows "((\<lambda>t. exp (- dist2 x (y[l := t]) / (2 * s)) * ((x ! k - y[l := t] ! k) / s))
          has_real_derivative
           exp (- dist2 x y / (2 * s)) *
             ((x ! k - y ! k) / s * ((x ! l - y ! l) / s) - (if k = l then 1 else 0) / s))
         (at (y ! l))"
proof -
  have eq: "(\<lambda>t. exp (- dist2 x (y[l := t]) / (2 * s)) * ((x ! k - y[l := t] ! k) / s)) =
            (\<lambda>t. exp (- (dist2 x y - (x ! l - y ! l) ^ 2 + (x ! l - t) ^ 2) / (2 * s)) *
                  ((x ! k - (if k = l then t else y ! k)) / s))"
    using assms(2,3) by (auto simp: dist2_update[OF assms(1,2)] fun_eq_iff)
  show ?thesis
    unfolding eq
    by (cases "k = l")
       (auto intro!: derivative_eq_intros simp: assms(4) field_simps)
qed

text \<open>
  Claim C6. For batches A (m rows) and B (n rows) of feature dimension d and
  \<open>sigma > 0\<close>, \<open>get_hess\<close> returns the m-by-n-by-d-by-d tensor whose (i, j) block is
  \<open>K[i,j] * (outer(d\<^sub>i\<^sub>j, d\<^sub>i\<^sub>j) - I / sigma)\<close> with \<open>d\<^sub>i\<^sub>j = (x\<^sub>i - y\<^sub>j) / sigma\<close>; and
  its entry (i, j, k, l) is the derivative, with respect to coordinate l of \<open>y\<^sub>j\<close>, of
  entry (i, j, k) of the gradient that \<open>get_grad\<close> returns: the second derivative of the
  kernel in its second argument.
\<close>

theorem get_hess_second_derivative:
  assumes wfA: "\<forall>x\<in>set A. length x = d" and wfB: "\<forall>y\<in>set B. length y = d"
    and sig: "0 < sigma self"
  shows "get_hess self A B =
           Inr (map (\<lambda>x. map (\<lambda>y. map (\<lambda>k. map (\<lambda>l.
                  exp (- dist2 x y / (2 * sigma self)) *
                    ((x ! k - y ! k) / sigma self * ((x ! l - y ! l) / sigma self)
                      - (if k = l then 1 else 0) / sigma self)) [0..<d]) [0..<d]) B) A,
                self\<lparr>pdist2 := Some (map (\<lambda>x. map (\<lambda>y. dist2 x y) B) A)\<rparr>)
         \<and> (\<forall>i<length A. \<forall>j<length B. \<forall>k<d. \<forall>l<d.
               ((\<lambda>t. (case get_grad self A (B[j := (B ! j)[l := t]]) of
                         Inr (K, s) \<Rightarrow> K ! i ! j ! k | Inl e \<Rightarrow> 0))
                has_real_derivative
                  (case get_hess self A B of Inr (H, s) \<Rightarrow> H ! i ! j ! k ! l | Inl e \<Rightarrow> 0))
                (at (B ! j ! l)))"
proof (intro conjI allI impI)
  show "get_hess self A B =
           Inr (map (\<lambda>x. map (\<lambda>y. map (\<lambda>k. map (\<lambda>l.
                  exp (- dist2 x y / (2 * sigma self)) *
                    ((x ! k - y ! k) / sigma self * ((x ! l - y ! l) / sigma self)
                      - (if k = l then 1 else 0) / sigma self)) [0..<d]) [0..<d]) B) A,
                self\<lparr>pdist2 := Some (map (\<lambda>x. map (\<lambda>y. dist2 x y) B) A)\<rparr>)"
    by (rule get_hess_entries[OF wfA wfB])
next
  fix i j k l
  assume i: "i < length A" and j: "j < length B" and k: "k < d" and l: "l < d"
  let ?x = "A ! i" and ?y = "B ! j"
  have lx: "length ?x = d" and ly: "length ?y = d" using i j wfA wfB by auto
  have wfB': "\<forall>y\<in>set (B[j := ?y[l := t]]). length y = d" for t
    using wfB ly by (auto dest!: set_update_subset_insert[THEN subsetD])
  have g: "(case get_grad self A (B[j := ?y[l := t]]) of
              Inr (K, s) \<Rightarrow> K ! i ! j ! k | Inl e \<Rightarrow> 0) =
           exp (- dist2 ?x (?y[l := t]) / (2 * sigma self)) *
             ((?x ! k - ?y[l := t] ! k) / sigma self)" for t
    using i j k by (simp add: get_grad_entries[OF wfA wfB'])
  have h: "(case get_hess self A B of Inr (H, s) \<Rightarrow> H ! i ! j ! k ! l | Inl e \<Rightarrow> 0) =
           exp (- dist2 ?x ?y / (2 * sigma self)) *
             ((?x ! k - ?y ! k) / sigma self * ((?x ! l - ?y ! l) / sigma self)
               - (if k = l then 1 else 0) / sigma self)"
    using i j k l by (simp add: get_hess_entries[OF wfA wfB])
  have "sigma self \<noteq> 0" using sig by simp
  with kgrad_deriv[of ?x ?y l k "sigma self"] lx ly k l
  show "((\<lambda>t. (case get_grad self A (B[j := ?y[l := t]]) of
                 Inr (K, s) \<Rightarrow> K ! i ! j ! k | Inl e \<Rightarrow> 0))
          has_real_derivative
            (case get_hess self A B of Inr (H, s) \<Rightarrow> H ! i ! j ! k ! l | Inl e \<Rightarrow> 0))
          (at (B ! j ! l))"
    unfolding g h by simp
qed

theorem get_hess_second_derivative_witness:
  "get_hess \<lparr>sigma = 2, pdist2 = None\<rparr> [[1, 2]] [[0, 0]] =
     Inr ([[[[exp (- 5 / 4) * (1 / 4 - 1 / 2), exp (- 5 / 4) * (1 / 2)],
             [exp (- 5 / 4) * (1 / 2), exp (- 5 / 4) * (1 - 1 / 2)]]]],
          \<lparr>sigma = 2, pdist2 = Some [[5]]\<rparr>)"
  using get_hess_second_derivative [of "[[1, 2]]" 2 "[[0, 0]]" "\<lparr>sigma = 2, pdist2 = None\<rparr>",
      THEN conjunct1]
  by (simp add: dist2_def upt_rec numeral_2_eq_2)

lemma get_gram_matrix_again:
  "get_gram_matrix self A B = Inr (G, s) \<Longrightarrow> get_gram_matrix s A B = Inr (G, s)"
  by (auto simp: get_gram_matrix_def get_pdist2_def Let_def split: if_splits sum.splits)

text \<open>
  Claim C7. \<open>get_grad_hess\<close> returns exactly the pair of what \<open>get_grad\<close> and
  \<open>get_hess\<close> return when they are called one after the other, for all inputs, and
  fails exactly when they fail.
\<close>

theorem get_grad_hess_separately:
  "get_grad_hess self A B =
     (case get_grad self A B of
        Inl e \<Rightarrow> Inl e
      | Inr (K1, s1) \<Rightarrow>
          (case get_hess s1 A B of
             Inl e \<Rightarrow> Inl e
           | Inr (K2, s2) \<Rightarrow> Inr ((K1, K2), s2)))"
proof (cases "get_gram_matrix self (Rank2 A) (Rank2 B)")
  case (Inl e)
  then show ?thesis
    by (simp add: get_grad_hess_def get_grad_def get_grad_gram_def)
next
  case (Inr r)
  obtain G s where r: "r = (G, s)" by (cases r)
  from Inr r get_gram_matrix_again[of self "Rank2 A" "Rank2 B" G s]
  have again: "get_gram_matrix s (Rank2 A) (Rank2 B) = Inr (G, s)" by simp
  have K1: "map2 (map2 (\<lambda>g v. map (\<lambda>a. hd g * a) v)) (map (map (\<lambda>g. [g])) G) D =
            map2 (map2 (\<lambda>g v. map (\<lambda>a. g * a) v)) G D" for D
    by (simp add: map2_map1)
  show ?thesis
    using Inr r again
    by (simp add: get_grad_hess_def get_grad_def get_grad_gram_def get_hess_def Let_def K1)
qed

theorem get_grad_hess_separately_witness:
  "get_grad_hess \<lparr>sigma = 1, pdist2 = None\<rparr> [[1]] [[0]] =
     Inr (([[[exp (- 1 / 2)]]], [[[[0]]]]), \<lparr>sigma = 1, pdist2 = Some [[1]]\<rparr>)
   \<and> get_grad \<lparr>sigma = 1, pdist2 = None\<rparr> [[1]] [[0]] =
     Inr ([[[exp (- 1 / 2)]]], \<lparr>sigma = 1, pdist2 = Some [[1]]\<rparr>)
   \<and> get_hess \<lparr>sigma = 1, pdist2 = Some [[1]]\<rparr> [[1]] [[0]] =
     Inr ([[[[0]]]], \<lparr>sigma = 1, pdist2 = Some [[1]]\<rparr>)"
proof -
  have g: "get_grad \<lparr>sigma = 1, pdist2 = None\<rparr> [[1]] [[0]] =
             Inr ([[[exp (- 1 / 2)]]], \<lparr>sigma = 1, pdist2 = Some [[1]]\<rparr>)"
    using get_grad_entries [of "[[1]]" 1 "[[0]]" "\<lparr>sigma = 1, pdist2 = None\<rparr>"]
    by (simp add: dist2_def)
  have h: "get_hess \<lparr>sigma = 1, pdist2 = Some [[1]]\<rparr> [[1]] [[0]] =
             Inr ([[[[0]]]], \<lparr>sigma = 1, pdist2 = Some [[1]]\<rparr>)"
    using get_hess_entries [of "[[1]]" 1 "[[0]]" "\<lparr>sigma = 1, pdist2 = Some [[1]]\<rparr>"]
    by (simp add: dist2_def)
  show ?thesis
    using get_grad_hess_separately [of "\<lparr>sigma = 1, pdist2 = None\<rparr>" "[[1]]" "[[0]]"] g h
    by simp
qed

section \<open>DeepNetwork: the consistency check of the constructor\<close>

lemma check_layer_cases:
  "check_layer ls nl bs li = Inl AssertionError \<or> check_layer ls nl bs li = Inr ()"
  by (simp add: check_layer_def Let_def)

lemma check_consistency_loop_fails:
  "li \<in> set lis \<Longrightarrow> check_layer ls nl bs li = Inl AssertionError \<Longrightarrow>
     check_consistency_loop ls nl bs lis = Inl AssertionError"
proof (induction lis)
  case Nil
  then show ?case by simp
next
  case (Cons a lis)
  show ?case
  proof (cases "check_layer ls nl bs a")
    case (Inl e)
    with check_layer_cases[of ls nl bs a] show ?thesis by simp
  next
    case (Inr u)
    with Cons have "li \<in> set lis" by auto
    with Cons Inr show ?thesis by simp
  qed
qed

lemma check_layer_shape_mismatch:
  assumes "i + 1 < nl" "shape_of (layer_ndim_out (ls ! i)) \<noteq> layer_ndim_in (ls ! (i + 1))"
  shows "check_layer ls nl bs i = Inl AssertionError"
proof -
  have "i < nl - 1" using assms(1) by simp
  moreover have "\<not> (case layer_ndim_out (ls ! i) of
                      Tuple t \<Rightarrow> layer_ndim_in (ls ! (i + 1)) = t
                    | Scalar n \<Rightarrow> layer_ndim_in (ls ! (i + 1)) = [n])"
    using assms(2) by (cases "layer_ndim_out (ls ! i)") auto
  ultimately show ?thesis
    by (simp add: check_layer_def Let_def)
qed

lemma check_layer_batch_mismatch:
  "layer_batch_size (ls ! i) \<noteq> bs \<Longrightarrow> check_layer ls nl bs i = Inl AssertionError"
  by (simp add: check_layer_def Let_def)

text \<open>
  Claim C9. If some adjacent pair of layers has the output shape of layer i different
  from the input shape of layer i+1, or some layer's \<open>batch_size\<close> differs from the
  first layer's, the constructor \<open>DeepNetwork(layers)\<close> raises the assertion error of
  its consistency check: no network object is returned on which \<open>forward_tensor\<close>
  could be called.
\<close>

theorem DeepNetwork_init_rejects:
  assumes "(\<exists>i. i + 1 < length ls \<and>
               shape_of (layer_ndim_out (ls ! i)) \<noteq> layer_ndim_in (ls ! (i + 1)))
           \<or> (\<exists>i<length ls. layer_batch_size (ls ! i) \<noteq> layer_batch_size (ls ! 0))"
  shows "DeepNetwork_init ls = Inl AssertionError"
proof -
  from assms have ne: "ls \<noteq> []" by auto
  then have hd0: "hd ls = ls ! 0" by (simp add: hd_conv_nth)
  from assms obtain i where i: "i < length ls"
    and bad: "check_layer ls (length ls) (layer_batch_size (ls ! 0)) i = Inl AssertionError"
  proof
    assume "\<exists>i. i + 1 < length ls \<and>
               shape_of (layer_ndim_out (ls ! i)) \<noteq> layer_ndim_in (ls ! (i + 1))"
    then obtain i where "i + 1 < length ls"
      "shape_of (layer_ndim_out (ls ! i)) \<noteq> layer_ndim_in (ls ! (i + 1))" by blast
    then show ?thesis
      using check_layer_shape_mismatch[of i "length ls" ls] that[of i] by simp
  next
    assume "\<exists>i<length ls. layer_batch_size (ls ! i) \<noteq> layer_batch_size (ls ! 0)"
    then obtain i where "i < length ls"
      "layer_batch_size (ls ! i) \<noteq> layer_batch_size (ls ! 0)" by blast
    then show ?thesis
      using check_layer_batch_mismatch[of ls i] that[of i] by simp
  qed
  have "i \<in> set [0..<length ls]" using i by simp
  from check_consistency_loop_fails[OF this bad]
  show ?thesis
    using ne by (simp add: DeepNetwork_init_def check_consistency_def Let_def hd0)
qed

theorem DeepNetwork_init_rejects_witness:
  "DeepNetwork_init
     [\<lparr>layer_ndim_in = [2], layer_ndim_out = Tuple [3], layer_batch_size = 2,
       layer_param = [(''W'', 0::nat)]\<rparr>,
      \<lparr>layer_ndim_in = [4], layer_ndim_out = Scalar 1, layer_batch_size = 2,
       layer_param = [(''W'', 1)]\<rparr>] = Inl AssertionError"
  by (rule DeepNetwork_init_rejects) (simp add: exI[of _ 0])

section \<open>The dense networks: graph, gradients and second derivatives\<close>

lemma eval_sum_nodes: "eval feed (sum_nodes xs) = sum_list (map (eval feed) xs)"
  by (induction xs) (simp_all add: sum_nodes_def)

lemma connected_sum_nodes: "connected (sum_nodes xs) = (\<exists>x\<in>set xs. connected x)"
  by (induction xs) (simp_all add: sum_nodes_def)

lemma partial_sum_nodes: "partial j k (sum_nodes xs) = sum_nodes (map (partial j k) xs)"
  by (induction xs) (simp_all add: sum_nodes_def)

lemma pw_linear_sum_nodes: "pw_linear (sum_nodes xs) = (\<forall>x\<in>set xs. pw_linear x)"
  by (induction xs) (simp_all add: sum_nodes_def)

lemma partial_unconnected: "\<not> connected v \<Longrightarrow> \<not> connected (partial j k v)"
  by (induction v) auto

lemma eval_partial_unconnected: "\<not> connected v \<Longrightarrow> eval feed (partial j k v) = 0"
  by (induction v) auto

lemma pw_linear_partial: "pw_linear v \<Longrightarrow> \<not> connected (partial j k v)"
  by (induction v) (auto simp: partial_unconnected)

lemma eval_partial_Mul:
  "eval feed (partial j k (Mul u v)) =
     eval feed (partial j k u) * eval feed v + eval feed u * eval feed (partial j k v)"
  by (simp add: eval_partial_unconnected)

lemma wf_params_shape:
  assumes "wf_params p"
  shows "ndim_in p = [ndim_in p ! 0]" "ndim_out p = [ndim_out p ! 0]"
    "prod_list (ndim_in p) = ndim_in p ! 0"
    "0 < ndim_in p ! 0" "0 < ndim_out p ! 0" "0 < batch_size p"
    "length (W p) = ndim_out p ! 0" "length (b p) = ndim_out p ! 0"
    "\<And>oi. oi < ndim_out p ! 0 \<Longrightarrow> length (W p ! oi) = ndim_in p ! 0"
proof -
  have one: "length xs = 1 \<Longrightarrow> xs = [xs ! 0]" for xs :: "nat list"
    by (cases xs) simp_all
  from assms show i: "ndim_in p = [ndim_in p ! 0]" and "ndim_out p = [ndim_out p ! 0]"
    by (simp_all add: wf_params_def one)
  show "prod_list (ndim_in p) = ndim_in p ! 0"
    by (subst i) simp
  from assms show "0 < ndim_in p ! 0" "0 < ndim_out p ! 0" "0 < batch_size p"
    "length (W p) = ndim_out p ! 0" "length (b p) = ndim_out p ! 0"
    by (simp_all add: wf_params_def)
  fix oi assume "oi < ndim_out p ! 0"
  with assms show "length (W p ! oi) = ndim_in p ! 0"
    by (simp add: wf_params_def list_all_length)
qed

lemma affine_row:
  assumes wf: "wf_params p"
  shows "add_bias (matmul_T data (W p)) (b p) =
           map (\<lambda>x. map (\<lambda>oi. pre_node p x oi) [0..<ndim_out p ! 0]) data"
proof -
  note s = wf_params_shape(7-9)[OF wf]
  have row: "map2 (\<lambda>a c. Add a (Const c))
               (map (\<lambda>w. sum_nodes (map2 (\<lambda>a c. Mul a (Const c)) x w)) (W p)) (b p) =
             map (\<lambda>oi. pre_node p x oi) [0..<ndim_out p ! 0]" for x
    by (rule nth_equalityI) (simp_all add: s pre_node_def)
  show ?thesis
    by (simp add: add_bias_def matmul_T_def row)
qed

lemma reshape_ok:
  assumes wf: "wf_params p" and rows: "\<forall>r\<in>set data. length r = ndim_in p ! 0"
  shows "reshape_data_tensor (ndim_in p) data = Inr (data, False)"
proof -
  have "list_all (\<lambda>r. [length r] = ndim_in p) data"
    using rows by (subst wf_params_shape(1)[OF wf]) (simp add: list_all_iff)
  then show ?thesis by (simp add: reshape_data_tensor_def)
qed

lemma forward_tensor_nodes:
  assumes wf: "wf_params (params net)" and rows: "\<forall>r\<in>set data. length r = ndim_in (params net) ! 0"
  shows "forward_tensor net data =
           Inr (map (\<lambda>x. map (\<lambda>oi. act_node net (pre_node (params net) x oi))
                               [0..<ndim_out (params net) ! 0]) data)"
proof (cases net)
  case (LinearNetwork p)
  with wf rows have "wf_params p" "\<forall>r\<in>set data. length r = ndim_in p ! 0" by simp_all
  then show ?thesis
    unfolding LinearNetwork by (simp add: reshape_ok affine_row)
next
  case (LinearReLUNetwork p lg)
  with wf rows have "wf_params p" "\<forall>r\<in>set data. length r = ndim_in p ! 0" by simp_all
  then show ?thesis
    unfolding LinearReLUNetwork by (simp add: reshape_ok affine_row o_def)
qed

lemma map2_map_upt:
  "length w = d \<Longrightarrow> map2 f (map g [0..<d]) w = map (\<lambda>k. f (g k) (w ! k)) [0..<d]"
  by (rule nth_equalityI) simp_all

lemma sum_list_delta:
  "sum_list (map (\<lambda>i. if i = k then f i else (0::real)) [0..<d]) = (if k < d then f k else 0)"
  by (induction d) auto

lemma sum_list_delta':
  "sum_list (map (\<lambda>i. if k = i \<and> P then f i else (0::real)) [0..<d]) = (if k < d \<and> P then f k else 0)"
  by (induction d) auto

lemma placeholder_rows:
  "wf_params p \<Longrightarrow>
     placeholder bs (ndim_in p) = map (\<lambda>j. map (Input j) [0..<ndim_in p ! 0]) [0..<bs]"
  by (simp add: placeholder_def wf_params_shape(3))

lemma connected_pre_node:
  assumes "0 < d" "length (W p ! oi) = d"
  shows "connected (pre_node p (map (Input j) [0..<d]) oi)"
proof -
  from assms obtain w ws where w: "W p ! oi = w # ws" by (cases "W p ! oi") auto
  from assms(1) have u: "[0..<d] = 0 # [1..<d]" by (simp add: upt_rec)
  show ?thesis
    by (simp add: pre_node_def connected_sum_nodes w u)
qed

lemma pw_linear_pre_node: "pw_linear (pre_node p (map (Input j) [0..<d]) oi)"
  by (auto simp: pre_node_def pw_linear_sum_nodes dest!: set_zip_leftD)

lemma connected_act_node: "connected (act_node net v) = connected v"
  by (cases net) simp_all

lemma pw_linear_act_node: "pw_linear v \<Longrightarrow> pw_linear (act_node net v)"
  by (cases net) simp_all

lemma eval_pre_node:
  assumes "length (W p ! oi) = d" "length (feed ! j) = d"
  shows "eval feed (pre_node p (map (Input j) [0..<d]) oi) = pre_activation p feed j oi"
proof -
  have "map2 (*) (feed ! j) (W p ! oi) = map (\<lambda>k. feed ! j ! k * W p ! oi ! k) [0..<d]"
    using assms by (intro nth_equalityI) simp_all
  then show ?thesis
    using assms(1)
    by (simp add: pre_node_def eval_sum_nodes map2_map_upt o_def pre_activation_def dot_def)
qed

lemma eval_partial_pre_node:
  assumes "length (W p ! oi) = d"
  shows "eval feed (partial j k (pre_node p (map (Input j') [0..<d]) oi)) =
           (if j = j' \<and> k < d then W p ! oi ! k else 0)"
proof -
  have "eval feed (partial j k (pre_node p (map (Input j') [0..<d]) oi)) =
        sum_list (map (\<lambda>i. if k = i \<and> j = j' then W p ! oi ! i else 0) [0..<d])"
    using assms
    by (simp add: pre_node_def partial_sum_nodes eval_sum_nodes map2_map_upt o_def
        cong: if_cong) (rule arg_cong[where f=sum_list], auto)
  then show ?thesis
    by (simp add: sum_list_delta') 
qed

lemma eval_partial_out_node:
  assumes wf: "wf_params (params net)" and oi: "oi < ndim_out (params net) ! 0"
    and row: "length (feed ! j') = ndim_in (params net) ! 0"
  shows "eval feed (partial j k (out_node net j' oi)) =
           (if j = j' \<and> k < ndim_in (params net) ! 0
            then ad_slope net feed j' oi * W (params net) ! oi ! k else 0)"
proof (cases net)
  case (LinearNetwork p)
  with wf oi have "length (W p ! oi) = ndim_in p ! 0"
    by (simp add: wf_params_shape(9))
  then show ?thesis
    unfolding LinearNetwork by (simp add: out_node_def eval_partial_pre_node)
next
  case (LinearReLUNetwork p lg)
  with wf oi row have l: "length (W p ! oi) = ndim_in p ! 0" "length (feed ! j') = ndim_in p ! 0"
    by (simp_all add: wf_params_shape(9))
  let ?v = "pre_node p (map (Input j') [0..<ndim_in p ! 0]) oi"
  have pm: "eval feed (partial j k (Mul ?v (Const c))) = eval feed (partial j k ?v) * c" for c
    unfolding eval_partial_Mul by simp
  have "eval feed (partial j k (Maximum (Mul ?v (Const (snd lg))) (Mul ?v (Const (fst lg))))) =
        (if eval feed ?v * snd lg \<ge> eval feed ?v * fst lg
         then eval feed (partial j k ?v) * snd lg else eval feed (partial j k ?v) * fst lg)"
    unfolding partial.simps(5) eval.simps(6) pm by simp
  then show ?thesis
    unfolding LinearReLUNetwork
    by (simp add: out_node_def eval_partial_pre_node[OF l(1)] eval_pre_node[OF l]
        del: partial.simps)
qed

lemma connected_out_node:
  "wf_params (params net) \<Longrightarrow> oi < ndim_out (params net) ! 0 \<Longrightarrow> connected (out_node net j oi)"
  by (simp add: out_node_def connected_act_node connected_pre_node wf_params_shape(4,9))

lemma pw_linear_out_node: "pw_linear (out_node net j oi)"
  by (simp add: out_node_def pw_linear_act_node pw_linear_pre_node)

lemma connected_sum_out_node:
  assumes "wf_params (params net)" "oi < ndim_out (params net) ! 0"
  shows "connected (sum_out_node net oi)"
proof -
  have "0 < batch_size (params net)" using assms(1) by (rule wf_params_shape(6))
  then have "0 \<in> set [0..<batch_size (params net)]" by simp
  then show ?thesis
    using connected_out_node[OF assms, of 0]
    unfolding sum_out_node_def connected_sum_nodes by (auto simp del: set_upt)
qed

lemma pw_linear_sum_out_node: "pw_linear (sum_out_node net oi)"
  by (simp add: sum_out_node_def pw_linear_sum_nodes pw_linear_out_node)

lemma eval_partial_sum_out_node:
  assumes wf: "wf_params (params net)" and oi: "oi < ndim_out (params net) ! 0"
    and rows: "\<forall>j<batch_size (params net). length (feed ! j) = ndim_in (params net) ! 0"
    and j: "j < batch_size (params net)" and k: "k < ndim_in (params net) ! 0"
  shows "eval feed (partial j k (sum_out_node net oi)) =
           ad_slope net feed j oi * W (params net) ! oi ! k"
proof -
  have "eval feed (partial j k (sum_out_node net oi)) =
        sum_list (map (\<lambda>x. eval feed (partial j k (out_node net x oi)))
          [0..<batch_size (params net)])"
    by (simp add: sum_out_node_def partial_sum_nodes eval_sum_nodes o_def)
  also have "\<dots> = sum_list (map (\<lambda>x. if x = j
                 then ad_slope net feed x oi * W (params net) ! oi ! k else 0)
          [0..<batch_size (params net)])"
    using rows k
    by (intro arg_cong[where f = sum_list] map_cong) (auto simp: eval_partial_out_node[OF wf oi])
  also have "\<dots> = ad_slope net feed j oi * W (params net) ! oi ! k"
    using j by (simp add: sum_list_delta)
  finally show ?thesis .
qed

lemma SumOutputNet_init_nodes:
  assumes wf: "wf_params (params net)"
  shows "SumOutputNet_init net =
           Inr \<lparr>son_batch = placeholder (batch_size (params net)) (ndim_in (params net)),
                son_output = map (\<lambda>j. map (\<lambda>oi. out_node net j oi) [0..<ndim_out (params net) ! 0])
                               [0..<batch_size (params net)],
                son_sum_output = map (\<lambda>oi. sum_out_node net oi) [0..<ndim_out (params net) ! 0]\<rparr>"
proof -
  let ?p = "params net"
  have rows: "\<forall>r\<in>set (placeholder (batch_size ?p) (ndim_in ?p)). length r = ndim_in ?p ! 0"
    by (auto simp: placeholder_rows[OF wf])
  have fw: "forward_tensor net (placeholder (batch_size ?p) (ndim_in ?p)) =
              Inr (map (\<lambda>j. map (\<lambda>oi. out_node net j oi) [0..<ndim_out ?p ! 0])
                     [0..<batch_size ?p])"
    unfolding forward_tensor_nodes[OF wf rows]
    by (simp add: placeholder_rows[OF wf] out_node_def o_def)
  show ?thesis
    by (simp add: SumOutputNet_init_def Let_def fw wf_params_shape(7)[OF wf] o_def
        sum_out_node_def cong: map_cong)
qed

lemma those_map_Some:
  "(\<forall>x\<in>set xs. f x = Some (g x)) \<Longrightarrow> those (map f xs) = Some (map g xs)"
  by (induction xs) simp_all

lemma stack_gradients_nodes:
  assumes wf: "wf_params (params net)"
    and so: "son_sum_output son = map (\<lambda>oi. sum_out_node net oi) [0..<ndim_out (params net) ! 0]"
  shows "stack_gradients (params net) son =
           Inr (map (\<lambda>oi. map (\<lambda>j. map (\<lambda>k. partial j k (sum_out_node net oi))
                                          [0..<ndim_in (params net) ! 0])
                               [0..<batch_size (params net)])
                  [0..<ndim_out (params net) ! 0])"
proof -
  let ?p = "params net"
  have "those (map (\<lambda>oi. gradients (batch_size ?p) (prod_list (ndim_in ?p))
                         (son_sum_output son ! oi)) [0..<ndim_out ?p ! 0]) =
        Some (map (\<lambda>oi. map (\<lambda>j. map (\<lambda>k. partial j k (sum_out_node net oi))
                                          [0..<ndim_in ?p ! 0]) [0..<batch_size ?p])
                [0..<ndim_out ?p ! 0])"
    by (rule those_map_Some)
       (simp add: so gradients_def connected_sum_out_node[OF wf] wf_params_shape(3)[OF wf])
  then show ?thesis
    by (simp add: stack_gradients_def)
qed

lemma g_flat_unconnected:
  assumes "oi < n" "i < d"
  shows "\<not> connected (g_flat_of d (map (\<lambda>oi. map (\<lambda>j. map (\<lambda>k. partial j k (sum_out_node net oi))
                                          [0..<d]) [0..<bs]) [0..<n]) ! oi ! i)"
  using assms
  by (simp add: g_flat_of_def connected_sum_nodes o_def pw_linear_partial pw_linear_sum_out_node)

lemma sec_zero:
  assumes "\<forall>oi<n. \<forall>i<d. \<not> connected (gf ! oi ! i)"
  shows "map (\<lambda>s. map (\<lambda>j. map (\<lambda>i. s ! i ! j) [0..<d]) [0..<bs])
           (map (\<lambda>oi. map (\<lambda>i. map (\<lambda>j. grad_zero bs d (gf ! oi ! i) ! j ! i) [0..<bs]) [0..<d])
              [0..<n]) =
         replicate n (replicate bs (replicate d (Const 0)))"
proof -
  have gz: "grad_zero bs d (gf ! oi ! i) = replicate bs (replicate d (Const 0))"
    if "oi < n" "i < d" for oi i
    using assms that by (simp add: grad_zero_def gradients_def)
  show ?thesis
    by (auto intro!: nth_equalityI simp: gz)
qed

lemma get_sec_data_nodes:
  assumes wf: "wf_params (params net)"
  shows "get_sec_data net =
           Inr (replicate (ndim_out (params net) ! 0)
                  (replicate (batch_size (params net))
                     (replicate (ndim_in (params net) ! 0) (Const 0))),
                map (\<lambda>oi. map (\<lambda>j. map (\<lambda>k. partial j k (sum_out_node net oi))
                                          [0..<ndim_in (params net) ! 0])
                               [0..<batch_size (params net)])
                  [0..<ndim_out (params net) ! 0],
                map (\<lambda>j. map (\<lambda>oi. out_node net j oi) [0..<ndim_out (params net) ! 0])
                  [0..<batch_size (params net)])"
proof -
  let ?p = "params net"
  let ?G = "map (\<lambda>oi. map (\<lambda>j. map (\<lambda>k. partial j k (sum_out_node net oi))
                                          [0..<ndim_in ?p ! 0]) [0..<batch_size ?p])
                  [0..<ndim_out ?p ! 0]"
  have un: "\<forall>oi<ndim_out ?p ! 0. \<forall>i<ndim_in ?p ! 0.
              \<not> connected (g_flat_of (ndim_in ?p ! 0) ?G ! oi ! i)"
    using g_flat_unconnected by blast
  let ?son = "\<lparr>son_batch = placeholder (batch_size ?p) (ndim_in ?p),
                son_output = map (\<lambda>j. map (\<lambda>oi. out_node net j oi) [0..<ndim_out ?p ! 0])
                               [0..<batch_size ?p],
                son_sum_output = map (\<lambda>oi. sum_out_node net oi) [0..<ndim_out ?p ! 0]\<rparr>"
  have sg: "stack_gradients ?p ?son = Inr ?G"
    by (rule stack_gradients_nodes[OF wf]) simp
  show ?thesis
    unfolding get_sec_data_def SumOutputNet_init_nodes[OF wf]
    by (simp only: sum.case sg Let_def wf_params_shape(3)[OF wf] sec_zero[OF un]
        SumOutputNet.select_convs)
qed

lemma Linear_get_grad_data_nodes:
  assumes wf: "wf_params p"
  shows "Linear_get_grad_data p =
           Inr (map (\<lambda>oi. map (\<lambda>j. map Const (W p ! oi)) [0..<batch_size p]) [0..<ndim_out p ! 0],
                map (\<lambda>j. map (\<lambda>oi. out_node (LinearNetwork p) j oi) [0..<ndim_out p ! 0])
                  [0..<batch_size p])"
proof -
  have wf': "wf_params (params (LinearNetwork p))" using wf by simp
  have rows: "\<forall>r\<in>set (placeholder (batch_size p) (ndim_in p)). length r = ndim_in p ! 0"
    by (auto simp: placeholder_rows[OF wf])
  have fw: "forward_tensor (LinearNetwork p) (placeholder (batch_size p) (ndim_in p)) =
              Inr (map (\<lambda>j. map (\<lambda>oi. out_node (LinearNetwork p) j oi) [0..<ndim_out p ! 0])
                     [0..<batch_size p])"
    using forward_tensor_nodes[OF wf'] rows
    by (simp add: placeholder_rows[OF wf] out_node_def o_def del: forward_tensor.simps)
  show ?thesis
    unfolding Linear_get_grad_data_def Let_def reshape_ok[OF wf rows]
    by (simp add: fw wf_params_shape(7)[OF wf] del: forward_tensor.simps cong: map_cong)
qed

lemma LinearReLU_get_grad_data_nodes:
  assumes wf: "wf_params p"
  shows "LinearReLU_get_grad_data p lg =
           Inr (map (\<lambda>oi. map (\<lambda>j. map (\<lambda>c.
                   Mul (Add (Mul (Const (snd lg)) (Cast_gt0 (out_node (LinearReLUNetwork p lg) j oi)))
                            (Mul (Const (fst lg)) (Cast_le0 (out_node (LinearReLUNetwork p lg) j oi))))
                       (Const c)) (W p ! oi)) [0..<batch_size p]) [0..<ndim_out p ! 0],
                map (\<lambda>j. map (\<lambda>oi. out_node (LinearReLUNetwork p lg) j oi) [0..<ndim_out p ! 0])
                  [0..<batch_size p])"
proof -
  let ?net = "LinearReLUNetwork p lg"
  have wf': "wf_params (params ?net)" using wf by simp
  have rows: "\<forall>r\<in>set (placeholder (batch_size p) (ndim_in p)). length r = ndim_in p ! 0"
    by (auto simp: placeholder_rows[OF wf])
  have fw: "forward_tensor ?net (placeholder (batch_size p) (ndim_in p)) =
              Inr (map (\<lambda>j. map (\<lambda>oi. out_node ?net j oi) [0..<ndim_out p ! 0])
                     [0..<batch_size p])"
    using forward_tensor_nodes[OF wf'] rows
    by (simp add: placeholder_rows[OF wf] out_node_def o_def del: forward_tensor.simps)
  have gi: "get_grad_input p lg (map (\<lambda>j. map (\<lambda>oi. out_node ?net j oi) [0..<ndim_out p ! 0])
                     [0..<batch_size p]) ! j ! oi =
            map (\<lambda>c. Mul (Add (Mul (Const (snd lg)) (Cast_gt0 (out_node ?net j oi)))
                            (Mul (Const (fst lg)) (Cast_le0 (out_node ?net j oi))))
                       (Const c)) (W p ! oi)"
    if "j < batch_size p" "oi < ndim_out p ! 0" for j oi
    using that by (simp add: get_grad_input_def wf_params_shape(7)[OF wf])
  show ?thesis
    unfolding LinearReLU_get_grad_data_def Let_def reshape_ok[OF wf rows]
    by (simp add: fw wf_params_shape(7)[OF wf] gi del: forward_tensor.simps cong: map_cong)
qed

lemma eval_out_node_ReLU:
  assumes "wf_params p" "oi < ndim_out p ! 0" "length (feed ! j) = ndim_in p ! 0"
  shows "eval feed (out_node (LinearReLUNetwork p lg) j oi) =
           max (pre_activation p feed j oi * snd lg) (pre_activation p feed j oi * fst lg)"
  using assms by (simp add: out_node_def eval_pre_node wf_params_shape(9))

lemma eval_out_node_Linear:
  assumes "wf_params p" "oi < ndim_out p ! 0" "length (feed ! j) = ndim_in p ! 0"
  shows "eval feed (out_node (LinearNetwork p) j oi) = pre_activation p feed j oi"
  using assms by (simp add: out_node_def eval_pre_node wf_params_shape(9))

lemma gate_arith:
  "((l1::real) * (if (0::real) < m then 1 else 0) + l0 * (if m \<le> 0 then 1 else 0)) * c =
     (if 0 < m then l1 else l0) * c"
  by auto

lemma run_grad_data_ReLU:
  assumes wf: "wf_params p" and len: "length data = batch_size p"
    and rows: "\<forall>r\<in>set data. length r = ndim_in p ! 0"
  shows "run_grad_data (LinearReLUNetwork p lg) data =
           Inr (map (\<lambda>oi. map (\<lambda>j. map (\<lambda>c. gate_slope (LinearReLUNetwork p lg) data j oi * c)
                                          (W p ! oi)) [0..<batch_size p]) [0..<ndim_out p ! 0],
                map (\<lambda>j. map (\<lambda>oi. max (pre_activation p data j oi * snd lg)
                                        (pre_activation p data j oi * fst lg))
                               [0..<ndim_out p ! 0]) [0..<batch_size p])"
proof -
  let ?net = "LinearReLUNetwork p lg"
  have r: "length (data ! j) = ndim_in p ! 0" if "j < batch_size p" for j
    using that len rows by simp
  have ent: "eval data (Mul (Add (Mul (Const (snd lg)) (Cast_gt0 (out_node ?net j oi)))
                                 (Mul (Const (fst lg)) (Cast_le0 (out_node ?net j oi))))
                            (Const c)) = gate_slope ?net data j oi * c"
    if "j < batch_size p" "oi < ndim_out p ! 0" for j oi c
    by (simp only: eval.simps eval_out_node_ReLU[OF wf that(2) r[OF that(1)]] gate_arith
        gate_slope.simps)
  show ?thesis
    by (simp add: run_grad_data_def LinearReLU_get_grad_data_nodes[OF wf] o_def ent
        eval_out_node_ReLU[OF wf] r del: eval.simps gate_slope.simps cong: map_cong)
qed

lemma run_grad_data_Linear:
  assumes wf: "wf_params p" and len: "length data = batch_size p"
    and rows: "\<forall>r\<in>set data. length r = ndim_in p ! 0"
  shows "run_grad_data (LinearNetwork p) data =
           Inr (map (\<lambda>oi. replicate (batch_size p) (W p ! oi)) [0..<ndim_out p ! 0],
                map (\<lambda>j. map (\<lambda>oi. pre_activation p data j oi) [0..<ndim_out p ! 0])
                  [0..<batch_size p])"
proof -
  have r: "length (data ! j) = ndim_in p ! 0" if "j < batch_size p" for j
    using that len rows by simp
  have rep: "map (\<lambda>j. x) [0..<n] = replicate n x" for x :: "real list" and n
    by (simp add: map_replicate_const)
  show ?thesis
    by (simp add: run_grad_data_def Linear_get_grad_data_nodes[OF wf] o_def
        eval_out_node_Linear[OF wf] r rep cong: map_cong)
qed

text \<open>
  Claim C4. For every LinearNetwork (with the shapes its constructor builds) the
  second-derivative extraction \<open>get_sec_data\<close> succeeds and returns, as its first
  component, the tensor of shape (ndim_out, batch_size) + ndim_in whose every entry is the
  zero that \<open>_grad_zero\<close> substitutes: for every output oi and input coordinate i
  the host's differentiation of \<open>g_flat[oi, i]\<close> reports no gradient
  (\<open>None\<close>), and the substituted tensor evaluates to 0 everywhere for every fed
  batch.
\<close>

theorem get_sec_data_LinearNetwork_zero:
  assumes "wf_params p"
  shows "get_sec_data (LinearNetwork p) =
           Inr (replicate (ndim_out p ! 0) (replicate (batch_size p)
                  (replicate (ndim_in p ! 0) (Const 0))),
                map (\<lambda>oi. map (\<lambda>j. map (\<lambda>k. partial j k (sum_out_node (LinearNetwork p) oi))
                                          [0..<ndim_in p ! 0]) [0..<batch_size p])
                  [0..<ndim_out p ! 0],
                map (\<lambda>j. map (\<lambda>oi. out_node (LinearNetwork p) j oi) [0..<ndim_out p ! 0])
                  [0..<batch_size p])
         \<and> (\<forall>oi<ndim_out p ! 0. \<forall>i<ndim_in p ! 0.
               gradients (batch_size p) (ndim_in p ! 0)
                 (g_flat_of (ndim_in p ! 0)
                    (map (\<lambda>oi. map (\<lambda>j. map (\<lambda>k. partial j k (sum_out_node (LinearNetwork p) oi))
                                          [0..<ndim_in p ! 0]) [0..<batch_size p])
                       [0..<ndim_out p ! 0]) ! oi ! i) = None)
         \<and> (\<forall>data. map (map (map (eval data)))
                      (replicate (ndim_out p ! 0) (replicate (batch_size p)
                         (replicate (ndim_in p ! 0) (Const 0)))) =
                    replicate (ndim_out p ! 0) (replicate (batch_size p)
                      (replicate (ndim_in p ! 0) 0)))"
proof (intro conjI allI impI)
  have wf': "wf_params (params (LinearNetwork p))" using assms by simp
  show "get_sec_data (LinearNetwork p) =
           Inr (replicate (ndim_out p ! 0) (replicate (batch_size p)
                  (replicate (ndim_in p ! 0) (Const 0))),
                map (\<lambda>oi. map (\<lambda>j. map (\<lambda>k. partial j k (sum_out_node (LinearNetwork p) oi))
                                          [0..<ndim_in p ! 0]) [0..<batch_size p])
                  [0..<ndim_out p ! 0],
                map (\<lambda>j. map (\<lambda>oi. out_node (LinearNetwork p) j oi) [0..<ndim_out p ! 0])
                  [0..<batch_size p])"
    using get_sec_data_nodes[OF wf'] by simp
next
  fix oi i assume "oi < ndim_out p ! 0" "i < ndim_in p ! 0"
  from g_flat_unconnected[OF this]
  show "gradients (batch_size p) (ndim_in p ! 0)
          (g_flat_of (ndim_in p ! 0)
             (map (\<lambda>oi. map (\<lambda>j. map (\<lambda>k. partial j k (sum_out_node (LinearNetwork p) oi))
                                   [0..<ndim_in p ! 0]) [0..<batch_size p])
                [0..<ndim_out p ! 0]) ! oi ! i) = None"
    by (simp add: gradients_def)
next
  fix data
  show "map (map (map (eval data)))
          (replicate (ndim_out p ! 0) (replicate (batch_size p)
             (replicate (ndim_in p ! 0) (Const 0)))) =
        replicate (ndim_out p ! 0) (replicate (batch_size p) (replicate (ndim_in p ! 0) 0))"
    by simp
qed

theorem get_sec_data_LinearNetwork_zero_witness:
  "map_sum id fst
     (get_sec_data (LinearNetwork
        \<lparr>ndim_in = [2], ndim_out = [1], batch_size = 2, W = [[3, 5]], b = [7]\<rparr>)) =
   Inr [[[Const 0, Const 0], [Const 0, Const 0]]]"
proof -
  have wf: "wf_params \<lparr>ndim_in = [2], ndim_out = [1], batch_size = 2, W = [[3, 5]], b = [7]\<rparr>"
    by (simp add: wf_params_def)
  show ?thesis
    using get_sec_data_LinearNetwork_zero[OF wf, THEN conjunct1]
    by (simp add: numeral_2_eq_2)
qed

lemma map_const_upt: "map (\<lambda>j. x) [0..<n] = replicate n x"
  by (simp add: map_replicate_const)

lemma mult_one_id: "((*) (1::real)) = id"
  by (simp add: fun_eq_iff)

text \<open>
  Claim C8 (amended). For every LinearReLUNetwork and every fed batch, the Jacobian that
  \<open>get_grad_data\<close> returns is the weight matrix scaled, per example and output
  coordinate, by \<open>lin_grads[1]\<close> where the network output is positive and by
  \<open>lin_grads[0]\<close> otherwise. Where all pre-activations are strictly positive and
  \<open>lin_grads[1] = 1\<close> it equals the LinearNetwork Jacobian, the weight matrix
  repeated over the batch; where all pre-activations are strictly negative and both
  entries of \<open>lin_grads\<close> are non-negative it equals the weight matrix scaled by
  \<open>lin_grads[0]\<close>.
\<close>

theorem LinearReLU_jacobian_gated:
  assumes wf: "wf_params p" and len: "length data = batch_size p"
    and rows: "\<forall>r\<in>set data. length r = ndim_in p ! 0"
  shows "(case run_grad_data (LinearReLUNetwork p lg) data of
            Inl e \<Rightarrow> False
          | Inr (J, outv) \<Rightarrow>
              J = map (\<lambda>oi. map (\<lambda>j. map (\<lambda>c. (if outv ! j ! oi > 0 then snd lg else fst lg) * c)
                                           (W p ! oi)) [0..<batch_size p]) [0..<ndim_out p ! 0])
         \<and> ((\<forall>j<batch_size p. \<forall>oi<ndim_out p ! 0. 0 < pre_activation p data j oi) \<and> snd lg = 1 \<longrightarrow>
              map_sum id fst (run_grad_data (LinearReLUNetwork p lg) data) =
                map_sum id fst (run_grad_data (LinearNetwork p) data)
              \<and> map_sum id fst (run_grad_data (LinearNetwork p) data) =
                  Inr (map (\<lambda>oi. replicate (batch_size p) (W p ! oi)) [0..<ndim_out p ! 0]))
         \<and> ((\<forall>j<batch_size p. \<forall>oi<ndim_out p ! 0. pre_activation p data j oi < 0)
               \<and> 0 \<le> fst lg \<and> 0 \<le> snd lg \<longrightarrow>
              map_sum id fst (run_grad_data (LinearReLUNetwork p lg) data) =
                Inr (map (\<lambda>oi. replicate (batch_size p) (map (\<lambda>c. fst lg * c) (W p ! oi)))
                       [0..<ndim_out p ! 0]))"
proof (intro conjI impI)
  note R = run_grad_data_ReLU[OF wf len rows, of lg]
  show "case run_grad_data (LinearReLUNetwork p lg) data of
            Inl e \<Rightarrow> False
          | Inr (J, outv) \<Rightarrow>
              J = map (\<lambda>oi. map (\<lambda>j. map (\<lambda>c. (if outv ! j ! oi > 0 then snd lg else fst lg) * c)
                                           (W p ! oi)) [0..<batch_size p]) [0..<ndim_out p ! 0]"
    unfolding R by (simp cong: map_cong)
next
  assume h: "(\<forall>j<batch_size p. \<forall>oi<ndim_out p ! 0. 0 < pre_activation p data j oi) \<and> snd lg = 1"
  have g: "gate_slope (LinearReLUNetwork p lg) data j oi = 1"
    if "j < batch_size p" "oi < ndim_out p ! 0" for j oi
  proof -
    from h that have "0 < pre_activation p data j oi" by blast
    with h show ?thesis by (simp add: less_max_iff_disj)
  qed
  have J: "map (\<lambda>oi. map (\<lambda>j. map (\<lambda>c. gate_slope (LinearReLUNetwork p lg) data j oi * c)
                                  (W p ! oi)) [0..<batch_size p]) [0..<ndim_out p ! 0] =
           map (\<lambda>oi. replicate (batch_size p) (W p ! oi)) [0..<ndim_out p ! 0]"
  proof (rule map_cong[OF refl])
    fix oi assume "oi \<in> set [0..<ndim_out p ! 0]"
    then have oi: "oi < ndim_out p ! 0" by simp
    show "map (\<lambda>j. map (\<lambda>c. gate_slope (LinearReLUNetwork p lg) data j oi * c) (W p ! oi))
            [0..<batch_size p] = replicate (batch_size p) (W p ! oi)"
      by (rule nth_equalityI) (simp_all add: g[OF _ oi] mult_one_id del: gate_slope.simps)
  qed
  show "map_sum id fst (run_grad_data (LinearReLUNetwork p lg) data) =
          map_sum id fst (run_grad_data (LinearNetwork p) data)"
    unfolding run_grad_data_ReLU[OF wf len rows] run_grad_data_Linear[OF wf len rows]
    by (simp only: map_sum.simps id_apply fst_conv J)
  show "map_sum id fst (run_grad_data (LinearNetwork p) data) =
          Inr (map (\<lambda>oi. replicate (batch_size p) (W p ! oi)) [0..<ndim_out p ! 0])"
    unfolding run_grad_data_Linear[OF wf len rows] by simp
next
  assume h: "(\<forall>j<batch_size p. \<forall>oi<ndim_out p ! 0. pre_activation p data j oi < 0)
               \<and> 0 \<le> fst lg \<and> 0 \<le> snd lg"
  have g: "gate_slope (LinearReLUNetwork p lg) data j oi = fst lg"
    if "j < batch_size p" "oi < ndim_out p ! 0" for j oi
  proof -
    from h that have "pre_activation p data j oi \<le> 0" by (simp add: less_imp_le)
    with h have "pre_activation p data j oi * snd lg \<le> 0" "pre_activation p data j oi * fst lg \<le> 0"
      by (simp_all add: mult_nonpos_nonneg)
    then show ?thesis by (auto simp add: less_max_iff_disj)
  qed
  have J: "map (\<lambda>oi. map (\<lambda>j. map (\<lambda>c. gate_slope (LinearReLUNetwork p lg) data j oi * c)
                                  (W p ! oi)) [0..<batch_size p]) [0..<ndim_out p ! 0] =
           map (\<lambda>oi. replicate (batch_size p) (map (\<lambda>c. fst lg * c) (W p ! oi)))
             [0..<ndim_out p ! 0]"
  proof (rule map_cong[OF refl])
    fix oi assume "oi \<in> set [0..<ndim_out p ! 0]"
    then have oi: "oi < ndim_out p ! 0" by simp
    show "map (\<lambda>j. map (\<lambda>c. gate_slope (LinearReLUNetwork p lg) data j oi * c) (W p ! oi))
            [0..<batch_size p] = replicate (batch_size p) (map (\<lambda>c. fst lg * c) (W p ! oi))"
      by (rule nth_equalityI) (simp_all add: g[OF _ oi] del: gate_slope.simps)
  qed
  show "map_sum id fst (run_grad_data (LinearReLUNetwork p lg) data) =
          Inr (map (\<lambda>oi. replicate (batch_size p) (map (\<lambda>c. fst lg * c) (W p ! oi)))
                 [0..<ndim_out p ! 0])"
    unfolding run_grad_data_ReLU[OF wf len rows]
    by (simp only: map_sum.simps id_apply fst_conv J)
qed

theorem LinearReLU_jacobian_gated_witness:
  "map_sum id fst
     (run_grad_data (LinearReLUNetwork
        \<lparr>ndim_in = [2], ndim_out = [1], batch_size = 2, W = [[3, 5]], b = [7]\<rparr> (0, 1))
        [[1, 1], [0, 2]]) = Inr [[[3, 5], [3, 5]]]"
proof -
  let ?p = "\<lparr>ndim_in = [2], ndim_out = [1], batch_size = 2, W = [[3, 5]], b = [7]\<rparr>"
  have wf: "wf_params ?p" by (simp add: wf_params_def)
  have len: "length [[1, 1], [0, 2::real]] = batch_size ?p" by simp
  have rows: "\<forall>r\<in>set [[1, 1], [0, 2::real]]. length r = ndim_in ?p ! 0" by simp
  have pos: "(\<forall>j<batch_size ?p. \<forall>oi<ndim_out ?p ! 0.
                0 < pre_activation ?p [[1, 1], [0, 2]] j oi) \<and> snd (0::real, 1::real) = 1"
    by (simp add: pre_activation_def dot_def less_Suc_eq numeral_2_eq_2)
  from LinearReLU_jacobian_gated[OF wf len rows, of "(0, 1)", THEN conjunct2, THEN conjunct1,
      rule_format, OF pos]
  show ?thesis by (simp add: numeral_2_eq_2)
qed

text \<open>
  The claim as it stands, without the condition on \<open>lin_grads\<close>, fails: with
  \<open>lin_grads = [0, 2]\<close>, W = [[1]], b = [0] and the batch [[1]] the only
  pre-activation is 1, strictly positive, and the Jacobian is [[[2]]] while the
  LinearNetwork with the same weights has [[[1]]].
\<close>

theorem LinearReLU_jacobian_counterexample:
  "0 < pre_activation \<lparr>ndim_in = [1], ndim_out = [1], batch_size = 1, W = [[1]], b = [0]\<rparr>
         [[1]] 0 0
   \<and> map_sum id fst
       (run_grad_data (LinearReLUNetwork
          \<lparr>ndim_in = [1], ndim_out = [1], batch_size = 1, W = [[1]], b = [0]\<rparr> (0, 2)) [[1]]) =
     Inr [[[2]]]
   \<and> map_sum id fst
       (run_grad_data (LinearNetwork
          \<lparr>ndim_in = [1], ndim_out = [1], batch_size = 1, W = [[1]], b = [0]\<rparr>) [[1]]) =
     Inr [[[1]]]"
proof -
  let ?p = "\<lparr>ndim_in = [1], ndim_out = [1], batch_size = 1, W = [[1]], b = [0]\<rparr>"
  have wf: "wf_params ?p" by (simp add: wf_params_def)
  have len: "length [[1::real]] = batch_size ?p" by simp
  have rows: "\<forall>r\<in>set [[1::real]]. length r = ndim_in ?p ! 0" by simp
  show ?thesis
    unfolding run_grad_data_ReLU[OF wf len rows] run_grad_data_Linear[OF wf len rows]
    by (simp add: pre_activation_def dot_def)
qed

section \<open>KernelNetModel: the cached distance matrix, kernel_fit and get_opt_alpha\<close>

lemma get_gram_matrix_sigma:
  "get_gram_matrix k X Y = Inr (K, k') \<Longrightarrow> sigma k' = sigma k"
  by (auto simp: get_gram_matrix_def get_pdist2_def Let_def split: if_splits)

lemma kernel_score_stats_sigma:
  "kernel_score_stats self Y = Inr ((bv, C), self1) \<Longrightarrow>
     sigma (kernel self1) = sigma (kernel self) \<and> alpha self1 = alpha self"
  by (auto simp: kernel_score_stats_def Let_def get_gram_matrix_sigma
      split: option.splits sum.splits)

lemma kernel_fit_one_point_raises:
  assumes "length (alpha self) = 1"
  shows "isl (kernel_fit solve self data lam)"
proof (cases "process_data self data")
  case (Inl e)
  then show ?thesis by (simp add: kernel_fit_def)
next
  case (Inr Y)
  show ?thesis
  proof (cases "kernel_score_stats self Y")
    case (Inl e)
    with Inr show ?thesis by (simp add: kernel_fit_def)
  next
    case ks: (Inr r)
    obtain bv C self1 where r: "r = ((bv, C), self1)" by (cases r) auto
    from ks r have "alpha self1 = alpha self"
      using kernel_score_stats_sigma by blast
    with Inr ks r assms show ?thesis
      by (auto simp: kernel_fit_def Let_def split: option.splits)
  qed
qed




text \<open>
  Claim C10. Every successful \<open>get_gram_matrix(X, Y)\<close> leaves in the kernel's
  \<open>pdist2\<close> field the distance matrix of that (X, Y), whatever the field held before.
  \<open>score_original\<close> computes the Gram matrix of (self.X, Y) and then reads the field:
  its D term is \<open>pdist2(self.X, Y) / sigma - ndim\<close>, entry by entry the direct squared
  distance divided by sigma, minus ndim, and the model it leaves behind holds that
  distance matrix in the kernel.
\<close>

theorem score_original_reads_cached_pdist2:
  assumes "process_data self data = Inr Y" and "self_X self = Some Xv"
    and "same_cols Xv Y"
  shows "score_original self data =
           Inr (score_original_J (alpha self)
                  (map (map (\<lambda>p. exp (- 0.5 / sigma (kernel self) * p)))
                     (map (\<lambda>x. map (\<lambda>y. row_sq x - 2.0 * dot x y + row_sq y) Y) Xv))
                  (score_original_D (sigma (kernel self)) (ndim self)
                     (map (\<lambda>x. map (\<lambda>y. row_sq x - 2.0 * dot x y + row_sq y) Y) Xv))
                  (pair_sub Xv Y) (length data) (sigma (kernel self)) (ndim self),
                self\<lparr>kernel := (kernel self)
                  \<lparr>pdist2 := Some (map (\<lambda>x. map (\<lambda>y. row_sq x - 2.0 * dot x y + row_sq y) Y) Xv)\<rparr>\<rparr>)
         \<and> (\<forall>i<length Xv. \<forall>j<length Y.
               score_original_D (sigma (kernel self)) (ndim self)
                 (map (\<lambda>x. map (\<lambda>y. row_sq x - 2.0 * dot x y + row_sq y) Y) Xv) ! i ! j =
               dist2 (Xv ! i) (Y ! j) / sigma (kernel self) - real (ndim self))
         \<and> (\<forall>k X' Y' K k'. get_gram_matrix k X' Y' = Inr (K, k') \<longrightarrow>
               pdist2 k' = Some (map (\<lambda>x. map (\<lambda>y. row_sq x - 2.0 * dot x y + row_sq y)
                                             (as_rows Y')) (as_rows X')))"
proof (intro conjI allI impI)
  show "score_original self data =
           Inr (score_original_J (alpha self)
                  (map (map (\<lambda>p. exp (- 0.5 / sigma (kernel self) * p)))
                     (map (\<lambda>x. map (\<lambda>y. row_sq x - 2.0 * dot x y + row_sq y) Y) Xv))
                  (score_original_D (sigma (kernel self)) (ndim self)
                     (map (\<lambda>x. map (\<lambda>y. row_sq x - 2.0 * dot x y + row_sq y) Y) Xv))
                  (pair_sub Xv Y) (length data) (sigma (kernel self)) (ndim self),
                self\<lparr>kernel := (kernel self)
                  \<lparr>pdist2 := Some (map (\<lambda>x. map (\<lambda>y. row_sq x - 2.0 * dot x y + row_sq y) Y) Xv)\<rparr>\<rparr>)"
    using assms
    by (simp add: score_original_def get_gram_matrix_def get_pdist2_def Let_def)
next
  fix i j assume ij: "i < length Xv" "j < length Y"
  with assms(3) have "length (Xv ! i) = length (Y ! j)"
    by (simp add: same_cols_def list_all_length)
  then show "score_original_D (sigma (kernel self)) (ndim self)
               (map (\<lambda>x. map (\<lambda>y. row_sq x - 2.0 * dot x y + row_sq y) Y) Xv) ! i ! j =
             dist2 (Xv ! i) (Y ! j) / sigma (kernel self) - real (ndim self)"
    using ij by (simp add: score_original_D_def expand_dist2)
next
  fix k X' Y' K k'
  assume "get_gram_matrix k X' Y' = Inr (K, k')"
  then show "pdist2 k' = Some (map (\<lambda>x. map (\<lambda>y. row_sq x - 2.0 * dot x y + row_sq y)
                                          (as_rows Y')) (as_rows X'))"
    by (auto simp: get_gram_matrix_def get_pdist2_def Let_def split: if_splits)
qed

theorem score_original_reads_cached_pdist2_witness:
  "map_sum id (\<lambda>r. pdist2 (kernel (snd r)))
     (score_original
        \<lparr>alpha = [1], npoint = 1, ndim = 1, self_ndim_in = [1],
         network = LinearNetwork \<lparr>ndim_in = [1], ndim_out = [1], batch_size = 1,
                                  W = [[1]], b = [0]\<rparr>,
         kernel = \<lparr>sigma = 2, pdist2 = Some [[7, 7]]\<rparr>, self_X = Some [[0]]\<rparr> [[3]]) =
   Inr (Some [[9]])"
proof -
  let ?m = "\<lparr>alpha = [1], npoint = 1, ndim = 1, self_ndim_in = [1],
         network = LinearNetwork \<lparr>ndim_in = [1], ndim_out = [1], batch_size = 1,
                                  W = [[1]], b = [0]\<rparr>,
         kernel = \<lparr>sigma = 2, pdist2 = Some [[7, 7]]\<rparr>, self_X = Some [[0::real]]\<rparr>"
  have pd: "process_data ?m [[3]] = Inr [[3]]"
    by (simp add: process_data_def reshape_data_tensor_def add_bias_def matmul_T_def
        sum_nodes_def)
  have sx: "self_X ?m = Some [[0]]" by simp
  have sc: "same_cols [[0::real]] [[3::real]]" by (simp add: same_cols_def)
  from score_original_reads_cached_pdist2[OF pd sx sc, THEN conjunct1]
  show ?thesis by (simp add: row_sq_def dot_def)
qed

text \<open>
  Claim C2. \<open>get_opt_alpha\<close> returns no coefficient vector on any model, points and
  data: every run ends in an exception. On a model that takes the points through the
  network twice without a shape error, the run reaches \<open>self.kernel.get_grad(y)\<close>,
  which lacks an argument, and ends there with TypeError.
\<close>

theorem get_opt_alpha_never_returns:
  "isl (get_opt_alpha self points data)
   \<and> get_opt_alpha
       \<lparr>alpha = [1], npoint = 1, ndim = 1, self_ndim_in = [1],
        network = LinearNetwork \<lparr>ndim_in = [1], ndim_out = [1], batch_size = 1,
                                 W = [[1]], b = [0]\<rparr>,
        kernel = \<lparr>sigma = 1, pdist2 = None\<rparr>, self_X = None\<rparr> [[1]] [[1]] = Inl TypeError"
proof
  show "isl (get_opt_alpha self points data)"
    by (simp add: get_opt_alpha_def split: sum.splits)
next
  let ?p = "\<lparr>ndim_in = [1], ndim_out = [1], batch_size = 1, W = [[1]], b = [0]\<rparr>"
  have wf: "wf_params (params (LinearNetwork ?p))" by (simp add: wf_params_def)
  show "get_opt_alpha
       \<lparr>alpha = [1], npoint = 1, ndim = 1, self_ndim_in = [1],
        network = LinearNetwork ?p,
        kernel = \<lparr>sigma = 1, pdist2 = None\<rparr>, self_X = None\<rparr> [[1]] [[1]] = Inl TypeError"
    using get_sec_data_nodes[OF wf]
    by (simp add: get_opt_alpha_def process_data_def set_points_def reshape_data_tensor_def
        add_bias_def matmul_T_def sum_nodes_def)
qed

section \<open>KernelNetModel: score and linear_score\<close>

lemma process_data_ok:
  assumes wf: "wf_params (params (network m))"
    and rows: "\<forall>r\<in>set pts. length r = ndim_in (params (network m)) ! 0"
  shows "\<exists>Xv. process_data m pts = Inr Xv \<and> length Xv = length pts \<and>
              (\<forall>r\<in>set Xv. length r = ndim_out (params (network m)) ! 0)"
proof -
  have r: "\<forall>r\<in>set (map (map Const) pts). length r = ndim_in (params (network m)) ! 0"
    using rows by simp
  show ?thesis
    unfolding process_data_def forward_tensor_nodes[OF wf r] by simp
qed

lemma set_points_ok:
  assumes wf: "wf_params (params (network m))"
    and rows: "\<forall>r\<in>set pts. length r = ndim_in (params (network m)) ! 0"
    and ni: "self_ndim_in m = ndim_in (params (network m))"
    and pd: "process_data m pts = Inr Xv"
  shows "set_points m pts = Inr (m\<lparr>self_X := Some Xv\<rparr>)"
proof -
  have "list_all (\<lambda>r. [length r] = ndim_in (params (network m))) pts"
    using reshape_ok[OF wf rows] by (simp add: reshape_data_tensor_def split: if_splits)
  then show ?thesis
    by (simp add: set_points_def ni pd)
qed

lemma eval_grad_sec:
  assumes wf: "wf_params (params net)" and len: "length data = batch_size (params net)"
    and rows: "\<forall>r\<in>set data. length r = ndim_in (params net) ! 0"
  shows "map (map (map (eval data)))
           (map (\<lambda>oi. map (\<lambda>j. map (\<lambda>k. partial j k (sum_out_node net oi))
                                     [0..<ndim_in (params net) ! 0])
                          [0..<batch_size (params net)])
              [0..<ndim_out (params net) ! 0]) = jacobian_ad net data"
proof -
  have r: "\<forall>j<batch_size (params net). length (data ! j) = ndim_in (params net) ! 0"
    using len rows by simp
  show ?thesis
    by (simp add: jacobian_ad_def o_def eval_partial_sum_out_node[OF wf _ r] cong: map_cong)
qed

lemma eval_out:
  "map (map (eval data))
     (map (\<lambda>j. map (\<lambda>oi. out_node net j oi) [0..<ndim_out (params net) ! 0])
        [0..<batch_size (params net)]) = net_out net data"
  by (simp add: net_out_def o_def)

lemma net_out_shape:
  "length (net_out net data) = batch_size (params net)"
  "\<forall>r\<in>set (net_out net data). length r = ndim_out (params net) ! 0"
  by (auto simp: net_out_def)

lemma run_grad_data_closed:
  assumes wf: "wf_params (params net)" and len: "length data = batch_size (params net)"
    and rows: "\<forall>r\<in>set data. length r = ndim_in (params net) ! 0"
  shows "run_grad_data net data = Inr (jacobian_gate net data, net_out net data)"
proof (cases net)
  case (LinearNetwork p)
  with wf len rows have a: "wf_params p" "length data = batch_size p"
    "\<forall>r\<in>set data. length r = ndim_in p ! 0" by simp_all
  have r: "length (data ! j) = ndim_in p ! 0" if "j < batch_size p" for j
    using that a by simp
  have y: "net_out (LinearNetwork p) data =
             map (\<lambda>j. map (\<lambda>oi. pre_activation p data j oi) [0..<ndim_out p ! 0])
               [0..<batch_size p]"
    by (simp add: net_out_def eval_out_node_Linear[OF a(1)] r cong: map_cong)
  have J: "jacobian_gate (LinearNetwork p) data =
             map (\<lambda>oi. replicate (batch_size p) (W p ! oi)) [0..<ndim_out p ! 0]"
    by (simp add: jacobian_gate_def mult_one_id map_const_upt)
  show ?thesis
    unfolding LinearNetwork run_grad_data_Linear[OF a] y J ..
next
  case (LinearReLUNetwork p lg)
  with wf len rows have a: "wf_params p" "length data = batch_size p"
    "\<forall>r\<in>set data. length r = ndim_in p ! 0" by simp_all
  have r: "length (data ! j) = ndim_in p ! 0" if "j < batch_size p" for j
    using that a by simp
  have y: "net_out (LinearReLUNetwork p lg) data =
             map (\<lambda>j. map (\<lambda>oi. max (pre_activation p data j oi * snd lg)
                                     (pre_activation p data j oi * fst lg))
                            [0..<ndim_out p ! 0]) [0..<batch_size p]"
    by (simp add: net_out_def eval_out_node_ReLU[OF a(1)] r cong: map_cong)
  have J: "jacobian_gate (LinearReLUNetwork p lg) data =
             map (\<lambda>oi. map (\<lambda>j. map (\<lambda>c. gate_slope (LinearReLUNetwork p lg) data j oi * c)
                                          (W p ! oi)) [0..<batch_size p]) [0..<ndim_out p ! 0]"
    by (simp add: jacobian_gate_def del: gate_slope.simps)
  show ?thesis
    unfolding LinearReLUNetwork run_grad_data_ReLU[OF a] y J ..
qed

lemma get_grad_data_closed:
  assumes wf: "wf_params (params net)" and len: "length data = batch_size (params net)"
    and rows: "\<forall>r\<in>set data. length r = ndim_in (params net) ! 0"
  shows "\<exists>G Ov. get_grad_data net = Inr (G, Ov) \<and>
                 map (map (map (eval data))) G = jacobian_gate net data \<and>
                 map (map (eval data)) Ov = net_out net data"
  using run_grad_data_closed[OF assms]
  by (auto simp: run_grad_data_def split: sum.splits)

lemma einsum_zero:
  "map2 (map2 (+)) (einsum_jkl_kjs_ljs bs nd din H J)
     (einsum_jk_kjs bs nd din g (replicate nd (replicate bs (replicate din 0)))) =
   einsum_jkl_kjs_ljs bs nd din H J"
proof -
  have z: "einsum_jk_kjs bs nd din g (replicate nd (replicate bs (replicate din 0))) =
             replicate bs (replicate din 0)"
  proof -
    have s: "(\<Sum>k\<leftarrow>[0..<nd]. g ! j ! k *
                replicate nd (replicate bs (replicate din 0)) ! k ! j ! i) = 0"
      if "j < bs" "i < din" for j i
    proof -
      have "(\<Sum>k\<leftarrow>[0..<nd]. g ! j ! k *
                replicate nd (replicate bs (replicate din 0)) ! k ! j ! i) =
            (\<Sum>k\<leftarrow>[0..<nd]. 0)"
        by (intro arg_cong[where f = sum_list] map_cong refl) (simp add: that)
      then show ?thesis by simp
    qed
    show ?thesis
      unfolding einsum_jk_kjs_def
      by (auto intro!: nth_equalityI simp: s)
  qed
  have row: "map2 (+) (map f [0..<din]) (replicate din (0::real)) = map f [0..<din]" for f
    by (rule nth_equalityI) simp_all
  show ?thesis
    unfolding z einsum_jkl_kjs_ljs_def
    by (rule nth_equalityI) (simp_all add: row)
qed

lemma get_grad_hess_ok:
  "same_cols X Y \<Longrightarrow> \<exists>K1 K2 k'. get_grad_hess k X Y = Inr ((K1, K2), k')"
  by (simp add: get_grad_hess_def get_gram_matrix_def get_pdist2_def Let_def)

lemma same_cols_rows:
  "\<forall>r\<in>set X. length r = n \<Longrightarrow> \<forall>r\<in>set Y. length r = n \<Longrightarrow> same_cols X Y"
  by (simp add: same_cols_def list_all_iff)

lemma slopes_agree:
  assumes "0 \<le> fst lg" "fst lg \<le> snd lg" "pre_activation p data j oi \<noteq> 0"
  shows "ad_slope (LinearReLUNetwork p lg) data j oi =
         gate_slope (LinearReLUNetwork p lg) data j oi"
proof (cases "0 < pre_activation p data j oi")
  case True
  with assms have ge: "pre_activation p data j oi * fst lg \<le> pre_activation p data j oi * snd lg"
    by (simp add: mult_left_mono)
  show ?thesis
  proof (cases "snd lg = 0")
    case True
    with assms have "fst lg = 0" by simp
    with True show ?thesis by simp
  next
    case False
    with assms have "0 < snd lg" by simp
    with \<open>0 < pre_activation p data j oi\<close> have "0 < pre_activation p data j oi * snd lg"
      by simp
    with ge show ?thesis by (simp add: less_max_iff_disj)
  qed
next
  case False
  with assms have neg: "pre_activation p data j oi < 0" by simp
  with assms have le: "pre_activation p data j oi * snd lg \<le> pre_activation p data j oi * fst lg"
    by (simp add: mult_left_mono_neg)
  from neg assms have np: "pre_activation p data j oi * snd lg \<le> 0"
    "pre_activation p data j oi * fst lg \<le> 0"
    by (simp_all add: mult_nonpos_nonneg)
  show ?thesis
  proof (cases "snd lg = fst lg")
    case True
    then show ?thesis by simp
  next
    case False
    with assms have "fst lg < snd lg" by simp
    with neg have "pre_activation p data j oi * snd lg < pre_activation p data j oi * fst lg"
      by (simp add: mult_strict_left_mono_neg)
    with np show ?thesis by (auto simp: less_max_iff_disj)
  qed
qed

lemma jacobian_agree:
  assumes wf: "wf_params (params net)"
    and sl: "case net of LinearNetwork p \<Rightarrow> True
             | LinearReLUNetwork p lg \<Rightarrow>
                 0 \<le> fst lg \<and> fst lg \<le> snd lg \<and>
                 (\<forall>j<batch_size p. \<forall>oi<ndim_out p ! 0. pre_activation p data j oi \<noteq> 0)"
  shows "jacobian_ad net data = jacobian_gate net data"
proof -
  have s: "ad_slope net data j oi = gate_slope net data j oi"
    if "j < batch_size (params net)" "oi < ndim_out (params net) ! 0" for j oi
  proof (cases net)
    case (LinearNetwork p)
    then show ?thesis by simp
  next
    case (LinearReLUNetwork p lg)
    with sl that show ?thesis
      by (simp add: slopes_agree del: ad_slope.simps gate_slope.simps)
  qed
  have row: "map (\<lambda>k. a * W (params net) ! oi ! k) [0..<ndim_in (params net) ! 0] =
             map (\<lambda>c. a * c) (W (params net) ! oi)"
    if "oi < ndim_out (params net) ! 0" for oi and a :: real
    by (rule nth_equalityI) (simp_all add: wf_params_shape(9)[OF wf that])
  show ?thesis
    unfolding jacobian_ad_def jacobian_gate_def
    by (intro map_cong refl) (simp add: s row)
qed

lemma score_closed:
  assumes wf: "wf_params (params (network m))"
    and nd: "ndim m = ndim_out (params (network m)) ! 0"
    and ni: "self_ndim_in m = ndim_in (params (network m))"
    and dlen: "length data = batch_size (params (network m))"
    and drow: "\<forall>r\<in>set data. length r = ndim_in (params (network m)) ! 0"
    and pd: "process_data m points = Inr Xv"
    and gh: "get_grad_hess (kernel m) Xv (net_out (network m) data) = Inr ((K1, K2), k')"
  shows "score m points data lam =
           Inr (reduce_score
                  (einsum_jkl_kjs_ljs (batch_size (params (network m)))
                     (ndim_out (params (network m)) ! 0) (ndim_in (params (network m)) ! 0)
                     (alpha_sum4 (alpha m) K2 (batch_size (params (network m)))
                        (ndim_out (params (network m)) ! 0))
                     (jacobian_ad (network m) data))
                  (einsum_jk_kjs (batch_size (params (network m)))
                     (ndim_out (params (network m)) ! 0) (ndim_in (params (network m)) ! 0)
                     (alpha_sum3 (alpha m) K1 (batch_size (params (network m)))
                        (ndim_out (params (network m)) ! 0))
                     (jacobian_ad (network m) data))
                + lam * get_param_size (network m),
                m\<lparr>self_X := Some Xv, kernel := k'\<rparr>)"
proof -
  have z: "map (map (map (eval data)))
             (replicate (ndim_out (params (network m)) ! 0)
                (replicate (batch_size (params (network m)))
                   (replicate (ndim_in (params (network m)) ! 0) (Const 0)))) =
           replicate (ndim_out (params (network m)) ! 0)
             (replicate (batch_size (params (network m)))
                (replicate (ndim_in (params (network m)) ! 0) 0))"
    by simp
  have f1: "network (m\<lparr>self_X := Some Xv\<rparr>) = network m" by simp
  have f2: "network (m\<lparr>self_X := Some Xv, kernel := k'\<rparr>) = network m"
    "ndim (m\<lparr>self_X := Some Xv, kernel := k'\<rparr>) = ndim_out (params (network m)) ! 0"
    "self_ndim_in (m\<lparr>self_X := Some Xv, kernel := k'\<rparr>) = ndim_in (params (network m))"
    by (simp_all add: nd ni)
  have kf: "get_kernel_fun_grad_hess (m\<lparr>self_X := Some Xv\<rparr>) (net_out (network m) data) =
              Inr ((alpha_sum3 (alpha m) K1 (batch_size (params (network m)))
                      (ndim_out (params (network m)) ! 0),
                    alpha_sum4 (alpha m) K2 (batch_size (params (network m)))
                      (ndim_out (params (network m)) ! 0)),
                   m\<lparr>self_X := Some Xv, kernel := k'\<rparr>)"
    by (simp add: get_kernel_fun_grad_hess_def gh net_out_shape nd)
  show ?thesis
    unfolding score_def pd
    by (simp only: sum.case Let_def f1 f2 get_sec_data_nodes[OF wf] prod.case
        z eval_grad_sec[OF wf dlen drow] eval_out kf
        wf_params_shape(3)[OF wf] einsum_zero)
qed

lemma linear_score_closed:
  assumes wf: "wf_params (params (network m))"
    and nd: "ndim m = ndim_out (params (network m)) ! 0"
    and ni: "self_ndim_in m = ndim_in (params (network m))"
    and prow: "\<forall>r\<in>set points. length r = ndim_in (params (network m)) ! 0"
    and dlen: "length data = batch_size (params (network m))"
    and drow: "\<forall>r\<in>set data. length r = ndim_in (params (network m)) ! 0"
    and pd: "process_data m points = Inr Xv"
    and gh: "get_grad_hess (kernel m) Xv (net_out (network m) data) = Inr ((K1, K2), k')"
  shows "linear_score m points data lam =
           Inr (reduce_score
                  (einsum_jkl_kjs_ljs (batch_size (params (network m)))
                     (ndim_out (params (network m)) ! 0) (ndim_in (params (network m)) ! 0)
                     (alpha_sum4 (alpha m) K2 (batch_size (params (network m)))
                        (ndim_out (params (network m)) ! 0))
                     (jacobian_gate (network m) data))
                  (einsum_jk_kjs (batch_size (params (network m)))
                     (ndim_out (params (network m)) ! 0) (ndim_in (params (network m)) ! 0)
                     (alpha_sum3 (alpha m) K1 (batch_size (params (network m)))
                        (ndim_out (params (network m)) ! 0))
                     (jacobian_gate (network m) data))
                + lam * get_param_size (network m),
                m\<lparr>self_X := Some Xv, kernel := k'\<rparr>)"
proof -
  from get_grad_data_closed[OF wf dlen drow] obtain G Ov where
    g: "get_grad_data (network m) = Inr (G, Ov)"
    "map (map (map (eval data))) G = jacobian_gate (network m) data"
    "map (map (eval data)) Ov = net_out (network m) data"
    by blast
  have f1: "network (m\<lparr>self_X := Some Xv\<rparr>) = network m" by simp
  have f2: "network (m\<lparr>self_X := Some Xv, kernel := k'\<rparr>) = network m"
    "ndim (m\<lparr>self_X := Some Xv, kernel := k'\<rparr>) = ndim_out (params (network m)) ! 0"
    "self_ndim_in (m\<lparr>self_X := Some Xv, kernel := k'\<rparr>) = ndim_in (params (network m))"
    by (simp_all add: nd ni)
  have kf: "get_kernel_fun_grad_hess (m\<lparr>self_X := Some Xv\<rparr>) (net_out (network m) data) =
              Inr ((alpha_sum3 (alpha m) K1 (batch_size (params (network m)))
                      (ndim_out (params (network m)) ! 0),
                    alpha_sum4 (alpha m) K2 (batch_size (params (network m)))
                      (ndim_out (params (network m)) ! 0)),
                   m\<lparr>self_X := Some Xv, kernel := k'\<rparr>)"
    by (simp add: get_kernel_fun_grad_hess_def gh net_out_shape nd)
  show ?thesis
    unfolding linear_score_def set_points_ok[OF wf prow ni pd]
    by (simp only: sum.case Let_def f1 f2 g prod.case kf wf_params_shape(3)[OF wf])
qed

text \<open>
  Claim C1 (amended). For a LinearNetwork, and for a LinearReLUNetwork whose slopes
  satisfy \<open>0 \<le> lin_grads[0] \<le> lin_grads[1]\<close> at a data batch on which no
  pre-activation is exactly zero, the objective that \<open>score(lam)\<close> builds equals the
  objective that \<open>linear_score(lam)\<close> builds, for the same basis points, data batch,
  alpha and lam, and both are built without an exception.
\<close>

theorem score_eq_linear_score:
  assumes wf: "wf_params (params (network m))"
    and nd: "ndim m = ndim_out (params (network m)) ! 0"
    and ni: "self_ndim_in m = ndim_in (params (network m))"
    and np: "npoint m = length (alpha m)" "length points = npoint m"
    and prow: "\<forall>r\<in>set points. length r = ndim_in (params (network m)) ! 0"
    and dlen: "length data = batch_size (params (network m))"
    and drow: "\<forall>r\<in>set data. length r = ndim_in (params (network m)) ! 0"
    and sl: "case network m of LinearNetwork p \<Rightarrow> True
             | LinearReLUNetwork p lg \<Rightarrow>
                 0 \<le> fst lg \<and> fst lg \<le> snd lg \<and>
                 (\<forall>j<batch_size p. \<forall>oi<ndim_out p ! 0. pre_activation p data j oi \<noteq> 0)"
  shows "score m points data lam = linear_score m points data lam
         \<and> (\<exists>r. score m points data lam = Inr r)"
proof -
  from process_data_ok[OF wf prow] obtain Xv where
    pd: "process_data m points = Inr Xv"
    and xr: "\<forall>r\<in>set Xv. length r = ndim_out (params (network m)) ! 0"
    by blast
  have "same_cols Xv (net_out (network m) data)"
    using xr net_out_shape(2) by (rule same_cols_rows)
  from get_grad_hess_ok[OF this] obtain K1 K2 k' where
    gh: "get_grad_hess (kernel m) Xv (net_out (network m) data) = Inr ((K1, K2), k')"
    by blast
  note s = score_closed[OF wf nd ni dlen drow pd gh]
  note l = linear_score_closed[OF wf nd ni prow dlen drow pd gh]
  show ?thesis
    unfolding s l jacobian_agree[OF wf sl] by simp
qed

theorem score_eq_linear_score_witness:
  "score \<lparr>alpha = [1], npoint = 1, ndim = 1, self_ndim_in = [1],
          network = LinearReLUNetwork \<lparr>ndim_in = [1], ndim_out = [1], batch_size = 1,
                                       W = [[1]], b = [0]\<rparr> (0, 1),
          kernel = \<lparr>sigma = 1, pdist2 = None\<rparr>, self_X = None\<rparr> [[1]] [[2]] 3 =
   linear_score \<lparr>alpha = [1], npoint = 1, ndim = 1, self_ndim_in = [1],
          network = LinearReLUNetwork \<lparr>ndim_in = [1], ndim_out = [1], batch_size = 1,
                                       W = [[1]], b = [0]\<rparr> (0, 1),
          kernel = \<lparr>sigma = 1, pdist2 = None\<rparr>, self_X = None\<rparr> [[1]] [[2]] 3"
proof -
  let ?p = "\<lparr>ndim_in = [1], ndim_out = [1], batch_size = 1, W = [[1]], b = [0]\<rparr>"
  let ?m = "\<lparr>alpha = [1], npoint = 1, ndim = 1, self_ndim_in = [1],
          network = LinearReLUNetwork ?p (0, 1),
          kernel = \<lparr>sigma = 1, pdist2 = None\<rparr>, self_X = None\<rparr>"
  have wf: "wf_params (params (network ?m))" by (simp add: wf_params_def)
  have nd: "ndim ?m = ndim_out (params (network ?m)) ! 0" by simp
  have ni: "self_ndim_in ?m = ndim_in (params (network ?m))" by simp
  have np: "npoint ?m = length (alpha ?m)" "length [[1::real]] = npoint ?m" by simp_all
  have prow: "\<forall>r\<in>set [[1::real]]. length r = ndim_in (params (network ?m)) ! 0" by simp
  have dlen: "length [[2::real]] = batch_size (params (network ?m))" by simp
  have drow: "\<forall>r\<in>set [[2::real]]. length r = ndim_in (params (network ?m)) ! 0" by simp
  have sl: "case network ?m of LinearNetwork p \<Rightarrow> True
             | LinearReLUNetwork p lg \<Rightarrow>
                 0 \<le> fst lg \<and> fst lg \<le> snd lg \<and>
                 (\<forall>j<batch_size p. \<forall>oi<ndim_out p ! 0. pre_activation p [[2]] j oi \<noteq> 0)"
    by (simp add: pre_activation_def dot_def)
  from score_eq_linear_score[OF wf nd ni np prow dlen drow sl, of 3, THEN conjunct1]
  show ?thesis .
qed

text \<open>
  Counterexample to the claim as it stands. A LinearReLUNetwork with
  \<open>lin_grads = [2, 1]\<close>, W = [[1]], b = [0], batch size 1; sigma = 1, alpha = [1],
  the basis point [[1]], the data batch [[1/2]], lam = 0. The pre-activation 1/2 is
  positive and the output is max(1/2, 1) = 1: back-propagation through the maximum
  follows the second operand and gives the slope 2, the gate of \<open>get_grad_input\<close>
  gives \<open>lin_grads[1] = 1\<close>. The two objectives are \<open>2 exp(-1/2)\<^sup>2\<close> and
  \<open>exp(-1/2)\<^sup>2 / 2\<close>.
\<close>

theorem score_neq_linear_score_counterexample:
  "map_sum id fst
     (score \<lparr>alpha = [1], npoint = 1, ndim = 1, self_ndim_in = [1],
          network = LinearReLUNetwork \<lparr>ndim_in = [1], ndim_out = [1], batch_size = 1,
                                       W = [[1]], b = [0]\<rparr> (2, 1),
          kernel = \<lparr>sigma = 1, pdist2 = None\<rparr>, self_X = None\<rparr> [[1]] [[1 / 2]] 0) =
     Inr (2 * (exp (- 1 / 2)) ^ 2)
   \<and> map_sum id fst
     (linear_score \<lparr>alpha = [1], npoint = 1, ndim = 1, self_ndim_in = [1],
          network = LinearReLUNetwork \<lparr>ndim_in = [1], ndim_out = [1], batch_size = 1,
                                       W = [[1]], b = [0]\<rparr> (2, 1),
          kernel = \<lparr>sigma = 1, pdist2 = None\<rparr>, self_X = None\<rparr> [[1]] [[1 / 2]] 0) =
     Inr ((exp (- 1 / 2)) ^ 2 / 2)
   \<and> 2 * (exp (- 1 / 2 :: real)) ^ 2 \<noteq> (exp (- 1 / 2)) ^ 2 / 2"
proof -
  let ?p = "\<lparr>ndim_in = [1], ndim_out = [1], batch_size = 1, W = [[1]], b = [0]\<rparr>"
  let ?net = "LinearReLUNetwork ?p (2, 1)"
  let ?m = "\<lparr>alpha = [1], npoint = 1, ndim = 1, self_ndim_in = [1],
          network = ?net,
          kernel = \<lparr>sigma = 1, pdist2 = None\<rparr>, self_X = None\<rparr>"
  have wf: "wf_params (params (network ?m))" by (simp add: wf_params_def)
  have nd: "ndim ?m = ndim_out (params (network ?m)) ! 0" by simp
  have ni: "self_ndim_in ?m = ndim_in (params (network ?m))" by simp
  have prow: "\<forall>r\<in>set [[1::real]]. length r = ndim_in (params (network ?m)) ! 0" by simp
  have dlen: "length [[1 / 2::real]] = batch_size (params (network ?m))" by simp
  have drow: "\<forall>r\<in>set [[1 / 2::real]]. length r = ndim_in (params (network ?m)) ! 0" by simp
  have pd: "process_data ?m [[1]] = Inr [[2]]"
    by (simp add: process_data_def reshape_data_tensor_def add_bias_def matmul_T_def
        sum_nodes_def)
  have no: "net_out (network ?m) [[1 / 2]] = [[1]]"
    by (simp add: net_out_def out_node_def pre_node_def sum_nodes_def)
  have gh: "get_grad_hess (kernel ?m) [[2]] (net_out (network ?m) [[1 / 2]]) =
              Inr (([[[exp (- 1 / 2)]]], [[[[0]]]]), \<lparr>sigma = 1, pdist2 = Some [[1]]\<rparr>)"
    unfolding no
    by (simp add: get_grad_hess_def get_gram_matrix_def get_pdist2_def same_cols_def
        pair_diff_def outer2_def eye_div_def ncols_def hess_block_def row_sq_def dot_def Let_def)
  have ja: "jacobian_ad (network ?m) [[1 / 2]] = [[[2]]]"
    by (simp add: jacobian_ad_def pre_activation_def dot_def)
  have jg: "jacobian_gate (network ?m) [[1 / 2]] = [[[1]]]"
    by (simp add: jacobian_gate_def pre_activation_def dot_def)
  have s: "map_sum id fst (score ?m [[1]] [[1 / 2]] 0) = Inr (2 * (exp (- 1 / 2)) ^ 2)"
    unfolding score_closed[OF wf nd ni dlen drow pd gh] ja
    by (simp add: reduce_score_def einsum_jkl_kjs_ljs_def einsum_jk_kjs_def alpha_sum3_def
        alpha_sum4_def power2_eq_square)
  have l: "map_sum id fst (linear_score ?m [[1]] [[1 / 2]] 0) = Inr ((exp (- 1 / 2)) ^ 2 / 2)"
    unfolding linear_score_closed[OF wf nd ni prow dlen drow pd gh] jg
    by (simp add: reduce_score_def einsum_jkl_kjs_ljs_def einsum_jk_kjs_def alpha_sum3_def
        alpha_sum4_def power2_eq_square)
  have "2 * (exp (- 1 / 2 :: real)) ^ 2 \<noteq> (exp (- 1 / 2)) ^ 2 / 2"
    by simp
  with s l show ?thesis by blast
qed

text \<open>
  With the default \<open>lin_grads = [0, 1]\<close> the two objectives differ where a
  pre-activation is exactly zero: W = [[1]], b = [0] and the data batch [[0]] give the
  pre-activation 0; back-propagation through the maximum follows the first operand
  (slope 1), the gate of \<open>get_grad_input\<close> tests \<open>o > 0\<close> and gives slope 0.
\<close>

lemma score_differs_at_kink:
  "map_sum id fst
     (score \<lparr>alpha = [1], npoint = 1, ndim = 1, self_ndim_in = [1],
          network = LinearReLUNetwork \<lparr>ndim_in = [1], ndim_out = [1], batch_size = 1,
                                       W = [[1]], b = [0]\<rparr> (0, 1),
          kernel = \<lparr>sigma = 1, pdist2 = None\<rparr>, self_X = None\<rparr> [[1]] [[0]] 0) =
     Inr ((exp (- 1 / 2)) ^ 2 / 2)
   \<and> map_sum id fst
     (linear_score \<lparr>alpha = [1], npoint = 1, ndim = 1, self_ndim_in = [1],
          network = LinearReLUNetwork \<lparr>ndim_in = [1], ndim_out = [1], batch_size = 1,
                                       W = [[1]], b = [0]\<rparr> (0, 1),
          kernel = \<lparr>sigma = 1, pdist2 = None\<rparr>, self_X = None\<rparr> [[1]] [[0]] 0) =
     Inr 0"
proof -
  let ?p = "\<lparr>ndim_in = [1], ndim_out = [1], batch_size = 1, W = [[1]], b = [0]\<rparr>"
  let ?net = "LinearReLUNetwork ?p (0, 1)"
  let ?m = "\<lparr>alpha = [1], npoint = 1, ndim = 1, self_ndim_in = [1],
          network = ?net,
          kernel = \<lparr>sigma = 1, pdist2 = None\<rparr>, self_X = None\<rparr>"
  have wf: "wf_params (params (network ?m))" by (simp add: wf_params_def)
  have nd: "ndim ?m = ndim_out (params (network ?m)) ! 0" by simp
  have ni: "self_ndim_in ?m = ndim_in (params (network ?m))" by simp
  have prow: "\<forall>r\<in>set [[1::real]]. length r = ndim_in (params (network ?m)) ! 0" by simp
  have dlen: "length [[0::real]] = batch_size (params (network ?m))" by simp
  have drow: "\<forall>r\<in>set [[0::real]]. length r = ndim_in (params (network ?m)) ! 0" by simp
  have pd: "process_data ?m [[1]] = Inr [[1]]"
    by (simp add: process_data_def reshape_data_tensor_def add_bias_def matmul_T_def
        sum_nodes_def)
  have no: "net_out (network ?m) [[0]] = [[0]]"
    by (simp add: net_out_def out_node_def pre_node_def sum_nodes_def)
  have gh: "get_grad_hess (kernel ?m) [[1]] (net_out (network ?m) [[0]]) =
              Inr (([[[exp (- 1 / 2)]]], [[[[0]]]]), \<lparr>sigma = 1, pdist2 = Some [[1]]\<rparr>)"
    unfolding no
    by (simp add: get_grad_hess_def get_gram_matrix_def get_pdist2_def same_cols_def
        pair_diff_def outer2_def eye_div_def ncols_def hess_block_def row_sq_def dot_def Let_def)
  have ja: "jacobian_ad (network ?m) [[0]] = [[[1]]]"
    by (simp add: jacobian_ad_def pre_activation_def dot_def)
  have jg: "jacobian_gate (network ?m) [[0]] = [[[0]]]"
    by (simp add: jacobian_gate_def pre_activation_def dot_def)
  have s: "map_sum id fst (score ?m [[1]] [[0]] 0) = Inr ((exp (- 1 / 2)) ^ 2 / 2)"
    unfolding score_closed[OF wf nd ni dlen drow pd gh] ja
    by (simp add: reduce_score_def einsum_jkl_kjs_ljs_def einsum_jk_kjs_def alpha_sum3_def
        alpha_sum4_def power2_eq_square)
  have l: "map_sum id fst (linear_score ?m [[1]] [[0]] 0) = Inr 0"
    unfolding linear_score_closed[OF wf nd ni prow dlen drow pd gh] jg
    by (simp add: reduce_score_def einsum_jkl_kjs_ljs_def einsum_jk_kjs_def alpha_sum3_def
        alpha_sum4_def power2_eq_square)
  from s l show ?thesis by blast
qed

end
